theory Spec2Isabelle
  imports Main "HOL-Library.Char_ord" "HOL-Library.List_Lexorder"
begin

section \<open>S3 helpers of modules/aws/s3.go\<close>

text \<open>
  The file \<^verbatim>\<open>modules/aws/s3.go\<close> is a layer of helpers over the S3 client of the AWS
  SDK for Go (v2). Every helper exists twice: a function whose name ends in \<open>E\<close> and
  returns the Go pair \<open>(value, error)\<close>, and a function without the suffix that calls the
  first and hands the error to \<^verbatim>\<open>require.NoError\<close>.

  The SDK itself is not part of the file. It is a parameter of the model: a record of
  functions, one per client operation the file calls, each taking the provider's state
  and returning the Go result pair and the next state. Pointers are options (\<open>None\<close> is
  \<^verbatim>\<open>nil\<close>), a dereference of \<^verbatim>\<open>nil\<close> is the outcome \<open>Panics\<close>.
\<close>

subsection \<open>Errors\<close>

text \<open>
  An error value made outside the file (by an SDK operation, by reading a response body,
  by \<^verbatim>\<open>NewAuthenticatedSession\<close>) is known to the file only through the text of its
  \<^verbatim>\<open>Error()\<close> method.
\<close>

datatype sdk_error = SdkError string

fun Error :: "sdk_error \<Rightarrow> string" where
  "Error (SdkError msg) = msg"

text \<open>
  The values of Go's \<^verbatim>\<open>error\<close> that the helpers return: foreign errors passed through,
  the wrapping by \<^verbatim>\<open>fmt.Errorf("failed to instantiate s3 client: %w", err)\<close>, the struct
  \<^verbatim>\<open>S3AccessLoggingNotEnabledErr{bucket, region}\<close>, and the results of the constructors
  \<^verbatim>\<open>NewBucketVersioningNotEnabledError\<close> and \<^verbatim>\<open>NewNoBucketPolicyError\<close> (declared in
  another file of the package), kept with their three arguments.
\<close>

datatype error =
    Sdk sdk_error
  | FailedToInstantiate error
  | S3AccessLoggingNotEnabledErr string string
  | BucketVersioningNotEnabledError string string string
  | NoBucketPolicyError string string string

text \<open>\<^verbatim>\<open>strings.Contains(s, substr)\<close>.\<close>

fun Contains :: "string \<Rightarrow> string \<Rightarrow> bool" where
  "Contains [] substr = (substr = [])"
| "Contains (c # s) substr = (take (length substr) (c # s) = substr \<or> Contains s substr)"

text \<open>\<^verbatim>\<open>aws.ToString\<close>: the string behind a pointer, the empty string for \<^verbatim>\<open>nil\<close>.\<close>

fun ToString :: "string option \<Rightarrow> string" where
  "ToString None = []"
| "ToString (Some s) = s"

subsection \<open>Outcomes\<close>

text \<open>A Go function either returns its results or panics.\<close>

datatype 'a exec = Returns 'a | Panics

text \<open>
  A helper without the \<open>E\<close> suffix runs inside a test: it returns, panics, or stops the
  test through \<^verbatim>\<open>t.FailNow()\<close> after reporting the error.
\<close>

datatype 'a test_exec = Passes 'a | FailsNow error | TestPanics

subsection \<open>SDK types\<close>

text \<open>Only the fields the file reads or writes are kept.\<close>

record Tag =
  Key :: "string option"
  Value :: "string option"

record Bucket =
  Name :: "string option"

record ListBucketsOutput =
  Buckets :: "Bucket list"

record GetBucketTaggingOutput =
  TagSet :: "Tag list"

text \<open>
  \<^verbatim>\<open>GetObjectOutput.Body\<close> is a reader; what \<^verbatim>\<open>buf.ReadFrom(res.Body)\<close> finds in it is
  the bytes read and the error that ended the reading, if any.
\<close>

record GetObjectOutput =
  Body :: "string \<times> sdk_error option"

record GetObjectInput =
  Bucket :: "string option"
  Key :: "string option"

record PutObjectInput =
  Bucket :: "string option"
  Key :: "string option"
  Body :: string

record CreateBucketConfiguration =
  LocationConstraint :: string

record CreateBucketInput =
  Bucket :: "string option"
  ObjectOwnership :: string
  CreateBucketConfiguration :: "CreateBucketConfiguration option"

record PutBucketPolicyInput =
  Bucket :: "string option"
  Policy :: "string option"

record VersioningConfiguration =
  MFADelete :: string
  Status :: string

record PutBucketVersioningInput =
  Bucket :: "string option"
  VersioningConfiguration :: "VersioningConfiguration option"

record ListObjectVersionsInput =
  Bucket :: "string option"
  KeyMarker :: "string option"

record ObjectVersion =
  Key :: "string option"
  VersionId :: "string option"

record DeleteMarkerEntry =
  Key :: "string option"
  VersionId :: "string option"

record ListObjectVersionsOutput =
  Versions :: "ObjectVersion list"
  DeleteMarkers :: "DeleteMarkerEntry list"
  IsTruncated :: "bool option"
  NextKeyMarker :: "string option"

record ObjectIdentifier =
  Key :: "string option"
  VersionId :: "string option"

record Delete =
  Objects :: "ObjectIdentifier list"

record DeleteObjectsInput =
  Bucket :: "string option"
  Delete :: "Delete option"

record LoggingEnabled =
  TargetBucket :: "string option"
  TargetPrefix :: "string option"

record GetBucketLoggingOutput =
  LoggingEnabled :: "LoggingEnabled option"

record GetBucketVersioningOutput =
  Status :: string

record GetBucketPolicyOutput =
  Policy :: "string option"

record OwnershipControlsRule =
  ObjectOwnership :: string

record OwnershipControls =
  Rules :: "OwnershipControlsRule list"

record GetBucketOwnershipControlsOutput =
  OwnershipControls :: "OwnershipControls option"

text \<open>The SDK's string constants that the file names.\<close>

definition ObjectOwnershipObjectWriter :: string where
  "ObjectOwnershipObjectWriter = ''ObjectWriter''"

definition MFADeleteDisabled :: string where
  "MFADeleteDisabled = ''Disabled''"

definition BucketVersioningStatusEnabled :: string where
  "BucketVersioningStatusEnabled = ''Enabled''"

subsection \<open>The SDK client and the calls issued to it\<close>

text \<open>
  One constructor per client operation, with the request the file built. The single-field
  requests \<^verbatim>\<open>{Bucket: ...}\<close> are given by that field.
\<close>

datatype sdk_call =
    CallListBuckets
  | CallGetBucketTagging "string option"
  | CallGetObject GetObjectInput
  | CallPutObject PutObjectInput
  | CallCreateBucket CreateBucketInput
  | CallPutBucketPolicy PutBucketPolicyInput
  | CallPutBucketVersioning PutBucketVersioningInput
  | CallDeleteBucket "string option"
  | CallListObjectVersions ListObjectVersionsInput
  | CallDeleteObjects DeleteObjectsInput
  | CallGetBucketLogging "string option"
  | CallGetBucketVersioning "string option"
  | CallGetBucketPolicy "string option"
  | CallGetBucketOwnershipControls "string option"
  | CallHeadBucket "string option"

text \<open>
  The environment: \<open>'c\<close> is the configuration that \<^verbatim>\<open>NewAuthenticatedSession\<close> yields
  (the client made from it by \<^verbatim>\<open>s3.NewFromConfig\<close> is identified with it), \<open>'s\<close> the
  state of the storage provider. An operation whose output the file discards
  (\<^verbatim>\<open>_, err = ...\<close>) yields its error only.
\<close>

record ('c, 's) aws =
  NewAuthenticatedSession :: "string \<Rightarrow> sdk_error + 'c"
  ListBuckets :: "'c \<Rightarrow> 's \<Rightarrow> (ListBucketsOutput option \<times> sdk_error option) \<times> 's"
  GetBucketTagging :: "'c \<Rightarrow> string option \<Rightarrow> 's \<Rightarrow> (GetBucketTaggingOutput option \<times> sdk_error option) \<times> 's"
  GetObject :: "'c \<Rightarrow> GetObjectInput \<Rightarrow> 's \<Rightarrow> (GetObjectOutput option \<times> sdk_error option) \<times> 's"
  PutObject :: "'c \<Rightarrow> PutObjectInput \<Rightarrow> 's \<Rightarrow> sdk_error option \<times> 's"
  CreateBucket :: "'c \<Rightarrow> CreateBucketInput \<Rightarrow> 's \<Rightarrow> sdk_error option \<times> 's"
  PutBucketPolicy :: "'c \<Rightarrow> PutBucketPolicyInput \<Rightarrow> 's \<Rightarrow> sdk_error option \<times> 's"
  PutBucketVersioning :: "'c \<Rightarrow> PutBucketVersioningInput \<Rightarrow> 's \<Rightarrow> sdk_error option \<times> 's"
  DeleteBucket :: "'c \<Rightarrow> string option \<Rightarrow> 's \<Rightarrow> sdk_error option \<times> 's"
  ListObjectVersions :: "'c \<Rightarrow> ListObjectVersionsInput \<Rightarrow> 's \<Rightarrow> (ListObjectVersionsOutput option \<times> sdk_error option) \<times> 's"
  DeleteObjects :: "'c \<Rightarrow> DeleteObjectsInput \<Rightarrow> 's \<Rightarrow> sdk_error option \<times> 's"
  GetBucketLogging :: "'c \<Rightarrow> string option \<Rightarrow> 's \<Rightarrow> (GetBucketLoggingOutput option \<times> sdk_error option) \<times> 's"
  GetBucketVersioning :: "'c \<Rightarrow> string option \<Rightarrow> 's \<Rightarrow> (GetBucketVersioningOutput option \<times> sdk_error option) \<times> 's"
  GetBucketPolicy :: "'c \<Rightarrow> string option \<Rightarrow> 's \<Rightarrow> (GetBucketPolicyOutput option \<times> sdk_error option) \<times> 's"
  GetBucketOwnershipControls :: "'c \<Rightarrow> string option \<Rightarrow> 's \<Rightarrow> (GetBucketOwnershipControlsOutput option \<times> sdk_error option) \<times> 's"
  HeadBucket :: "'c \<Rightarrow> string option \<Rightarrow> 's \<Rightarrow> sdk_error option \<times> 's"

text \<open>
  What a helper runs in: the provider's state and the SDK calls issued so far, oldest
  first.
\<close>

record 's world =
  cloud :: 's
  calls :: "sdk_call list"

text \<open>Issuing a call: the operation runs on the provider's state and the call is recorded.\<close>

definition invoke :: "sdk_call \<Rightarrow> ('s \<Rightarrow> 'r \<times> 's) \<Rightarrow> 's world \<Rightarrow> 'r \<times> 's world" where
  "invoke call op w =
     (case op (cloud w) of (r, s') \<Rightarrow> (r, \<lparr>cloud = s', calls = calls w @ [call]\<rparr>))"

subsection \<open>Clients\<close>

definition NewS3ClientE :: "('c, 's) aws \<Rightarrow> string \<Rightarrow> 'c option \<times> error option" where
  "NewS3ClientE env region =
     (case NewAuthenticatedSession env region of
        Inl err \<Rightarrow> (None, Some (Sdk err))
      | Inr sess \<Rightarrow> (Some sess, None))"

text \<open>The uploader made by \<^verbatim>\<open>manager.NewUploader\<close> is identified with its client.\<close>

definition NewS3UploaderE :: "('c, 's) aws \<Rightarrow> string \<Rightarrow> 'c option \<times> error option" where
  "NewS3UploaderE env region =
     (case NewAuthenticatedSession env region of
        Inl err \<Rightarrow> (None, Some (Sdk err))
      | Inr sess \<Rightarrow> (Some sess, None))"

subsection \<open>Finding a bucket by tag\<close>

text \<open>
  The inner loop of \<^verbatim>\<open>FindS3BucketWithTagE\<close> over \<^verbatim>\<open>tagResponse.TagSet\<close>, testing
  \<^verbatim>\<open>*tag.Key == key && *tag.Value == value\<close>: whether a tag matched.
\<close>

fun tag_scan :: "Tag list \<Rightarrow> string \<Rightarrow> string \<Rightarrow> bool exec" where
  "tag_scan [] key value = Returns False"
| "tag_scan (tag # rest) key value =
     (case Tag.Key tag of
        None \<Rightarrow> Panics
      | Some k \<Rightarrow>
          if k = key then
            (case Tag.Value tag of
               None \<Rightarrow> Panics
             | Some v \<Rightarrow> if v = value then Returns True else tag_scan rest key value)
          else tag_scan rest key value)"

text \<open>
  The statements after the error check of one round of the outer loop: reading
  \<^verbatim>\<open>tagResponse.TagSet\<close> and scanning it. \<open>None\<close> is the end of the round without a
  \<^verbatim>\<open>return\<close>.
\<close>

definition bucket_tags_match ::
  "Bucket \<Rightarrow> GetBucketTaggingOutput option \<Rightarrow> string \<Rightarrow> string \<Rightarrow> (string \<times> error option) exec option" where
  "bucket_tags_match bucket tagResponse key value =
     (case tagResponse of
        None \<Rightarrow> Some Panics
      | Some out \<Rightarrow>
          (case tag_scan (TagSet out) key value of
             Panics \<Rightarrow> Some Panics
           | Returns True \<Rightarrow>
               (case Name bucket of
                  None \<Rightarrow> Some Panics
                | Some name \<Rightarrow> Some (Returns (name, None)))
           | Returns False \<Rightarrow> None))"

text \<open>One round of the outer loop, for one listed bucket.\<close>

definition bucket_round ::
  "('c, 's) aws \<Rightarrow> 'c \<Rightarrow> Bucket \<Rightarrow> string \<Rightarrow> string \<Rightarrow> 's world
     \<Rightarrow> (string \<times> error option) exec option \<times> 's world" where
  "bucket_round env s3Client bucket key value w =
     (case invoke (CallGetBucketTagging (Name bucket))
             (GetBucketTagging env s3Client (Name bucket)) w of
        ((tagResponse, err), w') \<Rightarrow>
          (case err of
             Some e \<Rightarrow>
               if Contains (Error e) ''NoSuchBucket'' then (None, w')
               else if \<not> Contains (Error e) ''AuthorizationHeaderMalformed'' \<and>
                       \<not> Contains (Error e) ''BucketRegionError'' \<and>
                       \<not> Contains (Error e) ''NoSuchTagSet''
                    then (Some (Returns ([], Some (Sdk e))), w')
                    else (bucket_tags_match bucket tagResponse key value, w')
           | None \<Rightarrow> (bucket_tags_match bucket tagResponse key value, w')))"

fun buckets_loop ::
  "('c, 's) aws \<Rightarrow> 'c \<Rightarrow> Bucket list \<Rightarrow> string \<Rightarrow> string \<Rightarrow> 's world
     \<Rightarrow> (string \<times> error option) exec \<times> 's world" where
  "buckets_loop env s3Client [] key value w = (Returns ([], None), w)"
| "buckets_loop env s3Client (bucket # rest) key value w =
     (case bucket_round env s3Client bucket key value w of
        (Some r, w') \<Rightarrow> (r, w')
      | (None, w') \<Rightarrow> buckets_loop env s3Client rest key value w')"

definition FindS3BucketWithTagE ::
  "('c, 's) aws \<Rightarrow> string \<Rightarrow> string \<Rightarrow> string \<Rightarrow> 's world
     \<Rightarrow> (string \<times> error option) exec \<times> 's world" where
  "FindS3BucketWithTagE env awsRegion key value w =
     (case NewS3ClientE env awsRegion of
        (_, Some err) \<Rightarrow> (Returns ([], Some err), w)
      | (None, None) \<Rightarrow> (Panics, w)
      | (Some s3Client, None) \<Rightarrow>
          (case invoke CallListBuckets (ListBuckets env s3Client) w of
             ((_, Some err), w') \<Rightarrow> (Returns ([], Some (Sdk err)), w')
           | ((None, None), w') \<Rightarrow> (Panics, w')
           | ((Some resp, None), w') \<Rightarrow> buckets_loop env s3Client (Buckets resp) key value w'))"

subsection \<open>Tags, objects\<close>

text \<open>
  A Go map is \<^verbatim>\<open>nil\<close> or a table: \<open>None\<close> or \<open>Some m\<close>. The loop
  \<^verbatim>\<open>tags[aws.ToString(tag.Key)] = aws.ToString(tag.Value)\<close>:
\<close>

fun tags_loop :: "Tag list \<Rightarrow> (string \<rightharpoonup> string) \<Rightarrow> (string \<rightharpoonup> string)" where
  "tags_loop [] tags = tags"
| "tags_loop (tag # rest) tags =
     tags_loop rest (tags(ToString (Tag.Key tag) \<mapsto> ToString (Tag.Value tag)))"

definition GetS3BucketTagsE ::
  "('c, 's) aws \<Rightarrow> string \<Rightarrow> string \<Rightarrow> 's world
     \<Rightarrow> ((string \<rightharpoonup> string) option \<times> error option) exec \<times> 's world" where
  "GetS3BucketTagsE env awsRegion bucket w =
     (case NewS3ClientE env awsRegion of
        (_, Some err) \<Rightarrow> (Returns (None, Some err), w)
      | (None, None) \<Rightarrow> (Panics, w)
      | (Some s3Client, None) \<Rightarrow>
          (case invoke (CallGetBucketTagging (Some bucket))
                  (GetBucketTagging env s3Client (Some bucket)) w of
             ((_, Some err), w') \<Rightarrow> (Returns (None, Some (Sdk err)), w')
           | ((None, None), w') \<Rightarrow> (Panics, w')
           | ((Some out, None), w') \<Rightarrow>
               (Returns (Some (tags_loop (TagSet out) Map.empty), None), w')))"

definition GetS3ObjectContentsE ::
  "('c, 's) aws \<Rightarrow> string \<Rightarrow> string \<Rightarrow> string \<Rightarrow> 's world
     \<Rightarrow> (string \<times> error option) exec \<times> 's world" where
  "GetS3ObjectContentsE env awsRegion bucket key w =
     (case NewS3ClientE env awsRegion of
        (_, Some err) \<Rightarrow> (Returns ([], Some err), w)
      | (None, None) \<Rightarrow> (Panics, w)
      | (Some s3Client, None) \<Rightarrow>
          (let input = \<lparr>GetObjectInput.Bucket = Some bucket, GetObjectInput.Key = Some key\<rparr> in
           case invoke (CallGetObject input) (GetObject env s3Client input) w of
             ((_, Some err), w') \<Rightarrow> (Returns ([], Some (Sdk err)), w')
           | ((None, None), w') \<Rightarrow> (Panics, w')
           | ((Some res, None), w') \<Rightarrow>
               (case GetObjectOutput.Body res of
                  (_, Some err) \<Rightarrow> (Returns ([], Some (Sdk err)), w')
                | (contents, None) \<Rightarrow> (Returns (contents, None), w'))))"

definition PutS3ObjectContentsE ::
  "('c, 's) aws \<Rightarrow> string \<Rightarrow> string \<Rightarrow> string \<Rightarrow> string \<Rightarrow> 's world
     \<Rightarrow> error option exec \<times> 's world" where
  "PutS3ObjectContentsE env awsRegion bucket key body w =
     (case NewS3ClientE env awsRegion of
        (_, Some err) \<Rightarrow> (Returns (Some (FailedToInstantiate err)), w)
      | (None, None) \<Rightarrow> (Panics, w)
      | (Some s3Client, None) \<Rightarrow>
          (let params = \<lparr>PutObjectInput.Bucket = Some bucket, PutObjectInput.Key = Some key,
                         PutObjectInput.Body = body\<rparr> in
           case invoke (CallPutObject params) (PutObject env s3Client params) w of
             (err, w') \<Rightarrow> (Returns (map_option Sdk err), w')))"

subsection \<open>Creating, configuring and deleting a bucket\<close>

definition CreateS3BucketE ::
  "('c, 's) aws \<Rightarrow> string \<Rightarrow> string \<Rightarrow> 's world \<Rightarrow> error option exec \<times> 's world" where
  "CreateS3BucketE env region name w =
     (case NewS3ClientE env region of
        (_, Some err) \<Rightarrow> (Returns (Some err), w)
      | (None, None) \<Rightarrow> (Panics, w)
      | (Some s3Client, None) \<Rightarrow>
          (let params = \<lparr>CreateBucketInput.Bucket = Some name,
                         CreateBucketInput.ObjectOwnership = ObjectOwnershipObjectWriter,
                         CreateBucketConfiguration = None\<rparr>;
               params = (if region \<noteq> ''us-east-1''
                         then params\<lparr>CreateBucketConfiguration :=
                                Some \<lparr>LocationConstraint = region\<rparr>\<rparr>
                         else params) in
           case invoke (CallCreateBucket params) (CreateBucket env s3Client params) w of
             (err, w') \<Rightarrow> (Returns (map_option Sdk err), w')))"

definition PutS3BucketPolicyE ::
  "('c, 's) aws \<Rightarrow> string \<Rightarrow> string \<Rightarrow> string \<Rightarrow> 's world \<Rightarrow> error option exec \<times> 's world" where
  "PutS3BucketPolicyE env region bucketName policyJSONString w =
     (case NewS3ClientE env region of
        (_, Some err) \<Rightarrow> (Returns (Some err), w)
      | (None, None) \<Rightarrow> (Panics, w)
      | (Some s3Client, None) \<Rightarrow>
          (let input = \<lparr>PutBucketPolicyInput.Bucket = Some bucketName,
                        PutBucketPolicyInput.Policy = Some policyJSONString\<rparr> in
           case invoke (CallPutBucketPolicy input) (PutBucketPolicy env s3Client input) w of
             (err, w') \<Rightarrow> (Returns (map_option Sdk err), w')))"

definition PutS3BucketVersioningE ::
  "('c, 's) aws \<Rightarrow> string \<Rightarrow> string \<Rightarrow> 's world \<Rightarrow> error option exec \<times> 's world" where
  "PutS3BucketVersioningE env region bucketName w =
     (case NewS3ClientE env region of
        (_, Some err) \<Rightarrow> (Returns (Some err), w)
      | (None, None) \<Rightarrow> (Panics, w)
      | (Some s3Client, None) \<Rightarrow>
          (let input = \<lparr>PutBucketVersioningInput.Bucket = Some bucketName,
                        VersioningConfiguration =
                          Some \<lparr>MFADelete = MFADeleteDisabled,
                                VersioningConfiguration.Status = BucketVersioningStatusEnabled\<rparr>\<rparr> in
           case invoke (CallPutBucketVersioning input)
                  (PutBucketVersioning env s3Client input) w of
             (err, w') \<Rightarrow> (Returns (map_option Sdk err), w')))"

definition DeleteS3BucketE ::
  "('c, 's) aws \<Rightarrow> string \<Rightarrow> string \<Rightarrow> 's world \<Rightarrow> error option exec \<times> 's world" where
  "DeleteS3BucketE env region name w =
     (case NewS3ClientE env region of
        (_, Some err) \<Rightarrow> (Returns (Some err), w)
      | (None, None) \<Rightarrow> (Panics, w)
      | (Some s3Client, None) \<Rightarrow>
          (case invoke (CallDeleteBucket (Some name)) (DeleteBucket env s3Client (Some name)) w of
             (err, w') \<Rightarrow> (Returns (map_option Sdk err), w')))"

subsection \<open>Emptying a bucket\<close>

text \<open>
  One pass through the body of the \<^verbatim>\<open>for\<close> loop of \<^verbatim>\<open>EmptyS3BucketE\<close>. The first
  component is \<open>Some r\<close> when the pass leaves the function with \<open>r\<close>, and \<open>None\<close> when the
  loop goes round again; the second is \<^verbatim>\<open>params\<close> as the pass leaves it.

  The \<^verbatim>\<open>err\<close> returned after \<^verbatim>\<open>break\<close> is the variable of the function's outer scope,
  which is \<^verbatim>\<open>nil\<close> once the client exists (the loop body declares its own). The
  \<^verbatim>\<open>Logf\<close> after the assignment of \<^verbatim>\<open>KeyMarker\<close> dereferences it.
\<close>

definition EmptyS3BucketE_pass ::
  "('c, 's) aws \<Rightarrow> 'c \<Rightarrow> string \<Rightarrow> ListObjectVersionsInput \<Rightarrow> 's world
     \<Rightarrow> error option exec option \<times> ListObjectVersionsInput \<times> 's world" where
  "EmptyS3BucketE_pass env s3Client name params w =
     (case invoke (CallListObjectVersions params) (ListObjectVersions env s3Client params) w of
        ((_, Some err), w1) \<Rightarrow> (Some (Returns (Some (Sdk err))), params, w1)
      | ((None, None), w1) \<Rightarrow> (Some Panics, params, w1)
      | ((Some bucketObjects, None), w1) \<Rightarrow>
          if length (Versions bucketObjects) = 0 then (Some (Returns None), params, w1)
          else
            (let objectsToDelete =
                   map (\<lambda>object. \<lparr>ObjectIdentifier.Key = ObjectVersion.Key object,
                                  ObjectIdentifier.VersionId = ObjectVersion.VersionId object\<rparr>)
                     (Versions bucketObjects)
                   @ map (\<lambda>object. \<lparr>ObjectIdentifier.Key = DeleteMarkerEntry.Key object,
                                    ObjectIdentifier.VersionId = DeleteMarkerEntry.VersionId object\<rparr>)
                       (DeleteMarkers bucketObjects);
                 deleteParams = \<lparr>DeleteObjectsInput.Bucket = Some name,
                                 Delete = Some \<lparr>Objects = objectsToDelete\<rparr>\<rparr> in
             case invoke (CallDeleteObjects deleteParams)
                    (DeleteObjects env s3Client deleteParams) w1 of
               (Some err, w2) \<Rightarrow> (Some (Returns (Some (Sdk err))), params, w2)
             | (None, w2) \<Rightarrow>
                 (case IsTruncated bucketObjects of
                    None \<Rightarrow> (Some Panics, params, w2)
                  | Some True \<Rightarrow>
                      (case NextKeyMarker bucketObjects of
                         None \<Rightarrow> (Some Panics, params\<lparr>KeyMarker := None\<rparr>, w2)
                       | Some marker \<Rightarrow> (None, params\<lparr>KeyMarker := Some marker\<rparr>, w2))
                  | Some False \<Rightarrow> (Some (Returns None), params, w2))))"

text \<open>The loop. It has no bound of its own: \<open>None\<close> is a loop that never leaves.\<close>

partial_function (option) EmptyS3BucketE_loop ::
  "('c, 's) aws \<Rightarrow> 'c \<Rightarrow> string \<Rightarrow> ListObjectVersionsInput \<Rightarrow> 's world
     \<Rightarrow> (error option exec \<times> 's world) option" where
  "EmptyS3BucketE_loop env s3Client name params w =
     (case EmptyS3BucketE_pass env s3Client name params w of
        (Some r, _, w') \<Rightarrow> Some (r, w')
      | (None, params', w') \<Rightarrow> EmptyS3BucketE_loop env s3Client name params' w')"

definition EmptyS3BucketE ::
  "('c, 's) aws \<Rightarrow> string \<Rightarrow> string \<Rightarrow> 's world \<Rightarrow> (error option exec \<times> 's world) option" where
  "EmptyS3BucketE env region name w =
     (case NewS3ClientE env region of
        (_, Some err) \<Rightarrow> Some (Returns (Some err), w)
      | (None, None) \<Rightarrow> Some (Panics, w)
      | (Some s3Client, None) \<Rightarrow>
          EmptyS3BucketE_loop env s3Client name
            \<lparr>ListObjectVersionsInput.Bucket = Some name, KeyMarker = None\<rparr> w)"

subsection \<open>Reading a bucket's configuration\<close>

definition GetS3BucketLoggingTargetE ::
  "('c, 's) aws \<Rightarrow> string \<Rightarrow> string \<Rightarrow> 's world \<Rightarrow> (string \<times> error option) exec \<times> 's world" where
  "GetS3BucketLoggingTargetE env awsRegion bucket w =
     (case NewS3ClientE env awsRegion of
        (_, Some err) \<Rightarrow> (Returns ([], Some err), w)
      | (None, None) \<Rightarrow> (Panics, w)
      | (Some s3Client, None) \<Rightarrow>
          (case invoke (CallGetBucketLogging (Some bucket))
                  (GetBucketLogging env s3Client (Some bucket)) w of
             ((_, Some err), w') \<Rightarrow> (Returns ([], Some (Sdk err)), w')
           | ((None, None), w') \<Rightarrow> (Panics, w')
           | ((Some res, None), w') \<Rightarrow>
               (case LoggingEnabled res of
                  None \<Rightarrow> (Returns ([], Some (S3AccessLoggingNotEnabledErr bucket awsRegion)), w')
                | Some logging \<Rightarrow> (Returns (ToString (TargetBucket logging), None), w'))))"

definition GetS3BucketLoggingTargetPrefixE ::
  "('c, 's) aws \<Rightarrow> string \<Rightarrow> string \<Rightarrow> 's world \<Rightarrow> (string \<times> error option) exec \<times> 's world" where
  "GetS3BucketLoggingTargetPrefixE env awsRegion bucket w =
     (case NewS3ClientE env awsRegion of
        (_, Some err) \<Rightarrow> (Returns ([], Some err), w)
      | (None, None) \<Rightarrow> (Panics, w)
      | (Some s3Client, None) \<Rightarrow>
          (case invoke (CallGetBucketLogging (Some bucket))
                  (GetBucketLogging env s3Client (Some bucket)) w of
             ((_, Some err), w') \<Rightarrow> (Returns ([], Some (Sdk err)), w')
           | ((None, None), w') \<Rightarrow> (Panics, w')
           | ((Some res, None), w') \<Rightarrow>
               (case LoggingEnabled res of
                  None \<Rightarrow> (Returns ([], Some (S3AccessLoggingNotEnabledErr bucket awsRegion)), w')
                | Some logging \<Rightarrow> (Returns (ToString (TargetPrefix logging), None), w'))))"

definition GetS3BucketVersioningE ::
  "('c, 's) aws \<Rightarrow> string \<Rightarrow> string \<Rightarrow> 's world \<Rightarrow> (string \<times> error option) exec \<times> 's world" where
  "GetS3BucketVersioningE env awsRegion bucket w =
     (case NewS3ClientE env awsRegion of
        (_, Some err) \<Rightarrow> (Returns ([], Some err), w)
      | (None, None) \<Rightarrow> (Panics, w)
      | (Some s3Client, None) \<Rightarrow>
          (case invoke (CallGetBucketVersioning (Some bucket))
                  (GetBucketVersioning env s3Client (Some bucket)) w of
             ((_, Some err), w') \<Rightarrow> (Returns ([], Some (Sdk err)), w')
           | ((None, None), w') \<Rightarrow> (Panics, w')
           | ((Some res, None), w') \<Rightarrow>
               (Returns (GetBucketVersioningOutput.Status res, None), w')))"

definition GetS3BucketPolicyE ::
  "('c, 's) aws \<Rightarrow> string \<Rightarrow> string \<Rightarrow> 's world \<Rightarrow> (string \<times> error option) exec \<times> 's world" where
  "GetS3BucketPolicyE env awsRegion bucket w =
     (case NewS3ClientE env awsRegion of
        (_, Some err) \<Rightarrow> (Returns ([], Some err), w)
      | (None, None) \<Rightarrow> (Panics, w)
      | (Some s3Client, None) \<Rightarrow>
          (case invoke (CallGetBucketPolicy (Some bucket))
                  (GetBucketPolicy env s3Client (Some bucket)) w of
             ((_, Some err), w') \<Rightarrow> (Returns ([], Some (Sdk err)), w')
           | ((None, None), w') \<Rightarrow> (Panics, w')
           | ((Some res, None), w') \<Rightarrow>
               (Returns (ToString (GetBucketPolicyOutput.Policy res), None), w')))"

text \<open>A Go slice is \<^verbatim>\<open>nil\<close> or a sequence: \<open>None\<close> or \<open>Some xs\<close>.\<close>

definition GetS3BucketOwnershipControlsE ::
  "('c, 's) aws \<Rightarrow> string \<Rightarrow> string \<Rightarrow> 's world
     \<Rightarrow> (string list option \<times> error option) exec \<times> 's world" where
  "GetS3BucketOwnershipControlsE env awsRegion bucket w =
     (case NewS3ClientE env awsRegion of
        (_, Some err) \<Rightarrow> (Returns (None, Some err), w)
      | (None, None) \<Rightarrow> (Panics, w)
      | (Some s3Client, None) \<Rightarrow>
          (case invoke (CallGetBucketOwnershipControls (Some bucket))
                  (GetBucketOwnershipControls env s3Client (Some bucket)) w of
             ((_, Some err), w') \<Rightarrow> (Returns (None, Some (Sdk err)), w')
           | ((None, None), w') \<Rightarrow> (Panics, w')
           | ((Some out, None), w') \<Rightarrow>
               (case OwnershipControls out of
                  None \<Rightarrow> (Panics, w')
                | Some controls \<Rightarrow>
                    (Returns (Some (map OwnershipControlsRule.ObjectOwnership (Rules controls)),
                       None), w'))))"

subsection \<open>Assertions\<close>

definition AssertS3BucketExistsE ::
  "('c, 's) aws \<Rightarrow> string \<Rightarrow> string \<Rightarrow> 's world \<Rightarrow> error option exec \<times> 's world" where
  "AssertS3BucketExistsE env region name w =
     (case NewS3ClientE env region of
        (_, Some err) \<Rightarrow> (Returns (Some err), w)
      | (None, None) \<Rightarrow> (Panics, w)
      | (Some s3Client, None) \<Rightarrow>
          (case invoke (CallHeadBucket (Some name)) (HeadBucket env s3Client (Some name)) w of
             (err, w') \<Rightarrow> (Returns (map_option Sdk err), w')))"

definition AssertS3BucketVersioningExistsE ::
  "('c, 's) aws \<Rightarrow> string \<Rightarrow> string \<Rightarrow> 's world \<Rightarrow> error option exec \<times> 's world" where
  "AssertS3BucketVersioningExistsE env region bucketName w =
     (case GetS3BucketVersioningE env region bucketName w of
        (Panics, w') \<Rightarrow> (Panics, w')
      | (Returns (_, Some err), w') \<Rightarrow> (Returns (Some err), w')
      | (Returns (status, None), w') \<Rightarrow>
          if status = ''Enabled'' then (Returns None, w')
          else (Returns (Some (BucketVersioningNotEnabledError bucketName region status)), w'))"

definition AssertS3BucketPolicyExistsE ::
  "('c, 's) aws \<Rightarrow> string \<Rightarrow> string \<Rightarrow> 's world \<Rightarrow> error option exec \<times> 's world" where
  "AssertS3BucketPolicyExistsE env region bucketName w =
     (case GetS3BucketPolicyE env region bucketName w of
        (Panics, w') \<Rightarrow> (Panics, w')
      | (Returns (_, Some err), w') \<Rightarrow> (Returns (Some err), w')
      | (Returns (policy, None), w') \<Rightarrow>
          if policy = [] then (Returns (Some (NoBucketPolicyError bucketName region policy)), w')
          else (Returns None, w'))"

subsection \<open>The variants that fail the test\<close>

text \<open>
  \<^verbatim>\<open>require.NoError(t, err)\<close> followed by the rest of the function: with an error the
  test is reported as failed and stopped by \<^verbatim>\<open>t.FailNow()\<close>, so the rest does not run.
\<close>

definition require_NoError :: "error option \<Rightarrow> 'a test_exec \<Rightarrow> 'a test_exec" where
  "require_NoError err rest = (case err of None \<Rightarrow> rest | Some e \<Rightarrow> FailsNow e)"

definition FindS3BucketWithTag ::
  "('c, 's) aws \<Rightarrow> string \<Rightarrow> string \<Rightarrow> string \<Rightarrow> 's world \<Rightarrow> string test_exec \<times> 's world" where
  "FindS3BucketWithTag env awsRegion key value w =
     (case FindS3BucketWithTagE env awsRegion key value w of
        (Panics, w') \<Rightarrow> (TestPanics, w')
      | (Returns (bucket, err), w') \<Rightarrow> (require_NoError err (Passes bucket), w'))"

definition GetS3BucketTags ::
  "('c, 's) aws \<Rightarrow> string \<Rightarrow> string \<Rightarrow> 's world
     \<Rightarrow> (string \<rightharpoonup> string) option test_exec \<times> 's world" where
  "GetS3BucketTags env awsRegion bucket w =
     (case GetS3BucketTagsE env awsRegion bucket w of
        (Panics, w') \<Rightarrow> (TestPanics, w')
      | (Returns (tags, err), w') \<Rightarrow> (require_NoError err (Passes tags), w'))"

definition GetS3ObjectContents ::
  "('c, 's) aws \<Rightarrow> string \<Rightarrow> string \<Rightarrow> string \<Rightarrow> 's world \<Rightarrow> string test_exec \<times> 's world" where
  "GetS3ObjectContents env awsRegion bucket key w =
     (case GetS3ObjectContentsE env awsRegion bucket key w of
        (Panics, w') \<Rightarrow> (TestPanics, w')
      | (Returns (contents, err), w') \<Rightarrow> (require_NoError err (Passes contents), w'))"

definition PutS3ObjectContents ::
  "('c, 's) aws \<Rightarrow> string \<Rightarrow> string \<Rightarrow> string \<Rightarrow> string \<Rightarrow> 's world
     \<Rightarrow> unit test_exec \<times> 's world" where
  "PutS3ObjectContents env awsRegion bucket key body w =
     (case PutS3ObjectContentsE env awsRegion bucket key body w of
        (Panics, w') \<Rightarrow> (TestPanics, w')
      | (Returns err, w') \<Rightarrow> (require_NoError err (Passes ()), w'))"

definition CreateS3Bucket ::
  "('c, 's) aws \<Rightarrow> string \<Rightarrow> string \<Rightarrow> 's world \<Rightarrow> unit test_exec \<times> 's world" where
  "CreateS3Bucket env region name w =
     (case CreateS3BucketE env region name w of
        (Panics, w') \<Rightarrow> (TestPanics, w')
      | (Returns err, w') \<Rightarrow> (require_NoError err (Passes ()), w'))"

definition PutS3BucketPolicy ::
  "('c, 's) aws \<Rightarrow> string \<Rightarrow> string \<Rightarrow> string \<Rightarrow> 's world \<Rightarrow> unit test_exec \<times> 's world" where
  "PutS3BucketPolicy env region bucketName policyJSONString w =
     (case PutS3BucketPolicyE env region bucketName policyJSONString w of
        (Panics, w') \<Rightarrow> (TestPanics, w')
      | (Returns err, w') \<Rightarrow> (require_NoError err (Passes ()), w'))"

definition PutS3BucketVersioning ::
  "('c, 's) aws \<Rightarrow> string \<Rightarrow> string \<Rightarrow> 's world \<Rightarrow> unit test_exec \<times> 's world" where
  "PutS3BucketVersioning env region bucketName w =
     (case PutS3BucketVersioningE env region bucketName w of
        (Panics, w') \<Rightarrow> (TestPanics, w')
      | (Returns err, w') \<Rightarrow> (require_NoError err (Passes ()), w'))"

definition DeleteS3Bucket ::
  "('c, 's) aws \<Rightarrow> string \<Rightarrow> string \<Rightarrow> 's world \<Rightarrow> unit test_exec \<times> 's world" where
  "DeleteS3Bucket env region name w =
     (case DeleteS3BucketE env region name w of
        (Panics, w') \<Rightarrow> (TestPanics, w')
      | (Returns err, w') \<Rightarrow> (require_NoError err (Passes ()), w'))"

text \<open>\<open>None\<close>: the call of \<^verbatim>\<open>EmptyS3BucketE\<close> never comes back.\<close>

definition EmptyS3Bucket ::
  "('c, 's) aws \<Rightarrow> string \<Rightarrow> string \<Rightarrow> 's world \<Rightarrow> (unit test_exec \<times> 's world) option" where
  "EmptyS3Bucket env region name w =
     (case EmptyS3BucketE env region name w of
        None \<Rightarrow> None
      | Some (Panics, w') \<Rightarrow> Some (TestPanics, w')
      | Some (Returns err, w') \<Rightarrow> Some (require_NoError err (Passes ()), w'))"

definition GetS3BucketLoggingTarget ::
  "('c, 's) aws \<Rightarrow> string \<Rightarrow> string \<Rightarrow> 's world \<Rightarrow> string test_exec \<times> 's world" where
  "GetS3BucketLoggingTarget env awsRegion bucket w =
     (case GetS3BucketLoggingTargetE env awsRegion bucket w of
        (Panics, w') \<Rightarrow> (TestPanics, w')
      | (Returns (loggingTarget, err), w') \<Rightarrow> (require_NoError err (Passes loggingTarget), w'))"

definition GetS3BucketLoggingTargetPrefix ::
  "('c, 's) aws \<Rightarrow> string \<Rightarrow> string \<Rightarrow> 's world \<Rightarrow> string test_exec \<times> 's world" where
  "GetS3BucketLoggingTargetPrefix env awsRegion bucket w =
     (case GetS3BucketLoggingTargetPrefixE env awsRegion bucket w of
        (Panics, w') \<Rightarrow> (TestPanics, w')
      | (Returns (prefix, err), w') \<Rightarrow> (require_NoError err (Passes prefix), w'))"

definition GetS3BucketVersioning ::
  "('c, 's) aws \<Rightarrow> string \<Rightarrow> string \<Rightarrow> 's world \<Rightarrow> string test_exec \<times> 's world" where
  "GetS3BucketVersioning env awsRegion bucket w =
     (case GetS3BucketVersioningE env awsRegion bucket w of
        (Panics, w') \<Rightarrow> (TestPanics, w')
      | (Returns (versioningStatus, err), w') \<Rightarrow>
          (require_NoError err (Passes versioningStatus), w'))"

definition GetS3BucketPolicy ::
  "('c, 's) aws \<Rightarrow> string \<Rightarrow> string \<Rightarrow> 's world \<Rightarrow> string test_exec \<times> 's world" where
  "GetS3BucketPolicy env awsRegion bucket w =
     (case GetS3BucketPolicyE env awsRegion bucket w of
        (Panics, w') \<Rightarrow> (TestPanics, w')
      | (Returns (bucketPolicy, err), w') \<Rightarrow> (require_NoError err (Passes bucketPolicy), w'))"

definition GetS3BucketOwnershipControls ::
  "('c, 's) aws \<Rightarrow> string \<Rightarrow> string \<Rightarrow> 's world
     \<Rightarrow> string list option test_exec \<times> 's world" where
  "GetS3BucketOwnershipControls env awsRegion bucket w =
     (case GetS3BucketOwnershipControlsE env awsRegion bucket w of
        (Panics, w') \<Rightarrow> (TestPanics, w')
      | (Returns (rules, err), w') \<Rightarrow> (require_NoError err (Passes rules), w'))"

definition AssertS3BucketExists ::
  "('c, 's) aws \<Rightarrow> string \<Rightarrow> string \<Rightarrow> 's world \<Rightarrow> unit test_exec \<times> 's world" where
  "AssertS3BucketExists env region name w =
     (case AssertS3BucketExistsE env region name w of
        (Panics, w') \<Rightarrow> (TestPanics, w')
      | (Returns err, w') \<Rightarrow> (require_NoError err (Passes ()), w'))"

definition AssertS3BucketVersioningExists ::
  "('c, 's) aws \<Rightarrow> string \<Rightarrow> string \<Rightarrow> 's world \<Rightarrow> unit test_exec \<times> 's world" where
  "AssertS3BucketVersioningExists env region bucketName w =
     (case AssertS3BucketVersioningExistsE env region bucketName w of
        (Panics, w') \<Rightarrow> (TestPanics, w')
      | (Returns err, w') \<Rightarrow> (require_NoError err (Passes ()), w'))"

definition AssertS3BucketPolicyExists ::
  "('c, 's) aws \<Rightarrow> string \<Rightarrow> string \<Rightarrow> 's world \<Rightarrow> unit test_exec \<times> 's world" where
  "AssertS3BucketPolicyExists env region bucketName w =
     (case AssertS3BucketPolicyExistsE env region bucketName w of
        (Panics, w') \<Rightarrow> (TestPanics, w')
      | (Returns err, w') \<Rightarrow> (require_NoError err (Passes ()), w'))"

definition NewS3Client :: "('c, 's) aws \<Rightarrow> string \<Rightarrow> 'c option test_exec" where
  "NewS3Client env region =
     (case NewS3ClientE env region of (client, err) \<Rightarrow> require_NoError err (Passes client))"

definition NewS3Uploader :: "('c, 's) aws \<Rightarrow> string \<Rightarrow> 'c option test_exec" where
  "NewS3Uploader env region =
     (case NewS3UploaderE env region of (uploader, err) \<Rightarrow> require_NoError err (Passes uploader))"

section \<open>Vocabulary of the properties\<close>

text \<open>The world after a run that left the provider in state \<open>s'\<close> and issued \<open>cs\<close>.\<close>

definition after :: "'s world \<Rightarrow> 's \<Rightarrow> sdk_call list \<Rightarrow> 's world" where
  "after w s' cs = \<lparr>cloud = s', calls = calls w @ cs\<rparr>"

text \<open>A helper applied to its arguments issues exactly this one call, or none.\<close>

definition one_call :: "sdk_call \<Rightarrow> ('s world \<Rightarrow> 'r \<times> 's world) \<Rightarrow> bool" where
  "one_call call f = (\<forall>w. calls (snd (f w)) = calls w @ [call])"

definition no_call :: "('s world \<Rightarrow> 'r \<times> 's world) \<Rightarrow> bool" where
  "no_call f = (\<forall>w. calls (snd (f w)) = calls w)"

text \<open>
  The outcome \<open>t\<close> of a test-failing variant against the outcome \<open>e\<close> of its twin on the
  same world: the variant leaves the world as the twin does (it invokes the twin and
  nothing else), stops the test exactly when the twin returns an error, reporting that
  error, and otherwise returns the value the twin returned.
\<close>

definition asserts_on ::
  "'a test_exec \<times> 's world \<Rightarrow> ('a \<times> error option) exec \<times> 's world \<Rightarrow> bool" where
  "asserts_on t e =
     (snd t = snd e \<and>
      ((\<exists>err. fst t = FailsNow err) \<longleftrightarrow> (\<exists>v err. fst e = Returns (v, Some err))) \<and>
      (\<forall>v err. fst e = Returns (v, Some err) \<longrightarrow> fst t = FailsNow err) \<and>
      (\<forall>v. fst e = Returns (v, None) \<longrightarrow> fst t = Passes v) \<and>
      (fst e = Panics \<longrightarrow> fst t = TestPanics))"

definition asserting ::
  "('s world \<Rightarrow> 'a test_exec \<times> 's world) \<Rightarrow> ('s world \<Rightarrow> ('a \<times> error option) exec \<times> 's world)
     \<Rightarrow> bool" where
  "asserting f fE = (\<forall>w. asserts_on (f w) (fE w))"

text \<open>The outcome of a helper that returns an error only, with the empty tuple as value.\<close>

definition with_unit ::
  "error option exec \<times> 's world \<Rightarrow> (unit \<times> error option) exec \<times> 's world" where
  "with_unit e =
     (case e of
        (Panics, w') \<Rightarrow> (Panics, w')
      | (Returns err, w') \<Rightarrow> (Returns ((), err), w'))"

text \<open>The requests the helpers build.\<close>

definition get_object_request :: "string \<Rightarrow> string \<Rightarrow> GetObjectInput" where
  "get_object_request bucket key =
     \<lparr>GetObjectInput.Bucket = Some bucket, GetObjectInput.Key = Some key\<rparr>"

definition put_object_request :: "string \<Rightarrow> string \<Rightarrow> string \<Rightarrow> PutObjectInput" where
  "put_object_request bucket key body =
     \<lparr>PutObjectInput.Bucket = Some bucket, PutObjectInput.Key = Some key,
      PutObjectInput.Body = body\<rparr>"

definition create_bucket_request :: "string \<Rightarrow> string \<Rightarrow> CreateBucketInput" where
  "create_bucket_request region name =
     \<lparr>CreateBucketInput.Bucket = Some name,
      CreateBucketInput.ObjectOwnership = ObjectOwnershipObjectWriter,
      CreateBucketConfiguration =
        (if region = ''us-east-1'' then None else Some \<lparr>LocationConstraint = region\<rparr>)\<rparr>"

definition put_policy_request :: "string \<Rightarrow> string \<Rightarrow> PutBucketPolicyInput" where
  "put_policy_request bucket policy =
     \<lparr>PutBucketPolicyInput.Bucket = Some bucket, PutBucketPolicyInput.Policy = Some policy\<rparr>"

definition put_versioning_request :: "string \<Rightarrow> PutBucketVersioningInput" where
  "put_versioning_request bucket =
     \<lparr>PutBucketVersioningInput.Bucket = Some bucket,
      VersioningConfiguration =
        Some \<lparr>MFADelete = MFADeleteDisabled,
              VersioningConfiguration.Status = BucketVersioningStatusEnabled\<rparr>\<rparr>"

text \<open>The bulk delete request for a listed page: every version, then every delete marker.\<close>

definition delete_request :: "string \<Rightarrow> ListObjectVersionsOutput \<Rightarrow> DeleteObjectsInput" where
  "delete_request name page =
     \<lparr>DeleteObjectsInput.Bucket = Some name,
      Delete = Some \<lparr>Objects =
        map (\<lambda>v. \<lparr>ObjectIdentifier.Key = ObjectVersion.Key v,
                  ObjectIdentifier.VersionId = ObjectVersion.VersionId v\<rparr>) (Versions page)
        @ map (\<lambda>m. \<lparr>ObjectIdentifier.Key = DeleteMarkerEntry.Key m,
                    ObjectIdentifier.VersionId = DeleteMarkerEntry.VersionId m\<rparr>)
            (DeleteMarkers page)\<rparr>\<rparr>"

text \<open>
  A listing asks for a further one: it succeeded, has versions, is truncated and names
  the next key marker.
\<close>

definition goes_on :: "ListObjectVersionsOutput option \<Rightarrow> sdk_error option \<Rightarrow> bool" where
  "goes_on out err =
     (case (out, err) of
        (Some page, None) \<Rightarrow>
          Versions page \<noteq> [] \<and> IsTruncated page = Some True \<and> NextKeyMarker page \<noteq> None
      | _ \<Rightarrow> False)"

text \<open>
  The chain of listings that starts with the request \<open>params\<close> in state \<open>s\<close> and follows
  \<^verbatim>\<open>NextKeyMarker\<close> comes to an end: the listing does not ask for a further one, or the
  chain from the next marker ends, in the state the bulk delete of the page leaves.
\<close>

inductive listing_chain_ends ::
  "('c, 's) aws \<Rightarrow> 'c \<Rightarrow> string \<Rightarrow> ListObjectVersionsInput \<Rightarrow> 's \<Rightarrow> bool"
  for env :: "('c, 's) aws" and c :: 'c and name :: string where
  last_listing:
    "ListObjectVersions env c params s = ((out, err), s1) \<Longrightarrow> \<not> goes_on out err \<Longrightarrow>
     listing_chain_ends env c name params s"
| next_listing:
    "ListObjectVersions env c params s = ((Some page, None), s1) \<Longrightarrow>
     Versions page \<noteq> [] \<Longrightarrow> IsTruncated page = Some True \<Longrightarrow>
     NextKeyMarker page = Some marker \<Longrightarrow>
     DeleteObjects env c (delete_request name page) s1 = (derr, s2) \<Longrightarrow>
     derr = None \<longrightarrow> listing_chain_ends env c name (params\<lparr>KeyMarker := Some marker\<rparr>) s2 \<Longrightarrow>
     listing_chain_ends env c name params s"

text \<open>
  A tag set of well-formed tags (key and value present) without the pair, and a tagging
  lookup that shows the bucket not to carry the pair: such a tag set, or the answer that
  the bucket is gone.
\<close>

definition lacks_pair :: "Tag list \<Rightarrow> string \<Rightarrow> string \<Rightarrow> bool" where
  "lacks_pair tags key value =
     list_all (\<lambda>tag. Tag.Key tag \<noteq> None \<and> Tag.Value tag \<noteq> None \<and>
                     (Tag.Key tag, Tag.Value tag) \<noteq> (Some key, Some value)) tags"

definition lookup_without_match ::
  "GetBucketTaggingOutput option \<times> sdk_error option \<Rightarrow> string \<Rightarrow> string \<Rightarrow> bool" where
  "lookup_without_match r key value =
     (case r of
        (_, Some e) \<Rightarrow> Contains (Error e) ''NoSuchBucket''
      | (None, None) \<Rightarrow> False
      | (Some out, None) \<Rightarrow> lacks_pair (TagSet out) key value)"

text \<open>
  The tagging lookups of the listed buckets, made in the order of the list from state
  \<open>s\<close> on, each show the bucket not to carry the pair.
\<close>

fun lookups_without_match ::
  "('c, 's) aws \<Rightarrow> 'c \<Rightarrow> Bucket list \<Rightarrow> string \<Rightarrow> string \<Rightarrow> 's \<Rightarrow> bool" where
  "lookups_without_match env c [] key value s = True"
| "lookups_without_match env c (bucket # rest) key value s =
     (case GetBucketTagging env c (Name bucket) s of
        (r, s') \<Rightarrow>
          lookup_without_match r key value \<and> lookups_without_match env c rest key value s')"

section \<open>A small object store\<close>

text \<open>
  An instance of the environment to run the helpers on: buckets with an optional tag set
  and a list of object versions and delete markers kept in key order. Listing is paged
  by \<open>max_keys\<close> and resumes after the key marker; the operations named in
  \<open>forbidden\<close> are refused. Operations the store does not offer answer
  \<^verbatim>\<open>NotImplemented\<close>. As in the SDK, an operation that fails yields a \<^verbatim>\<open>nil\<close> output
  with its error.
\<close>

record s3_object =
  okey :: string
  oversion :: string
  omarker :: bool

record s3_bucket =
  bname :: string
  btags :: "Tag list option"
  bobjects :: "s3_object list"

record s3 =
  buckets :: "s3_bucket list"
  forbidden :: "string list"
  max_keys :: nat

definition lookup_bucket :: "string option \<Rightarrow> s3 \<Rightarrow> s3_bucket option" where
  "lookup_bucket name s = find (\<lambda>b. Some (bname b) = name) (buckets s)"

definition s3_ListBuckets :: "s3 \<Rightarrow> (ListBucketsOutput option \<times> sdk_error option) \<times> s3" where
  "s3_ListBuckets s =
     (if ''ListBuckets'' \<in> set (forbidden s) then ((None, Some (SdkError ''AccessDenied'')), s)
      else ((Some \<lparr>Buckets = map (\<lambda>b. \<lparr>Name = Some (bname b)\<rparr>) (buckets s)\<rparr>, None), s))"

definition s3_GetBucketTagging ::
  "string option \<Rightarrow> s3 \<Rightarrow> (GetBucketTaggingOutput option \<times> sdk_error option) \<times> s3" where
  "s3_GetBucketTagging name s =
     (if ''GetBucketTagging'' \<in> set (forbidden s) then ((None, Some (SdkError ''AccessDenied'')), s)
      else case lookup_bucket name s of
        None \<Rightarrow> ((None, Some (SdkError ''NoSuchBucket: The specified bucket does not exist'')), s)
      | Some b \<Rightarrow>
          (case btags b of
             None \<Rightarrow> ((None, Some (SdkError ''NoSuchTagSet: The TagSet does not exist'')), s)
           | Some tags \<Rightarrow> ((Some \<lparr>TagSet = tags\<rparr>, None), s)))"

definition s3_ListObjectVersions ::
  "ListObjectVersionsInput \<Rightarrow> s3 \<Rightarrow> (ListObjectVersionsOutput option \<times> sdk_error option) \<times> s3" where
  "s3_ListObjectVersions params s =
     (if ''ListObjectVersions'' \<in> set (forbidden s) then ((None, Some (SdkError ''AccessDenied'')), s)
      else case lookup_bucket (ListObjectVersionsInput.Bucket params) s of
        None \<Rightarrow> ((None, Some (SdkError ''NoSuchBucket: The specified bucket does not exist'')), s)
      | Some b \<Rightarrow>
          (let rest = (case KeyMarker params of
                         None \<Rightarrow> bobjects b
                       | Some marker \<Rightarrow> filter (\<lambda>x. marker < okey x) (bobjects b));
               page = take (max_keys s) rest;
               more = (max_keys s < length rest)
           in ((Some \<lparr>Versions =
                         map (\<lambda>x. \<lparr>ObjectVersion.Key = Some (okey x),
                                   ObjectVersion.VersionId = Some (oversion x)\<rparr>)
                           (filter (\<lambda>x. \<not> omarker x) page),
                       DeleteMarkers =
                         map (\<lambda>x. \<lparr>DeleteMarkerEntry.Key = Some (okey x),
                                   DeleteMarkerEntry.VersionId = Some (oversion x)\<rparr>)
                           (filter omarker page),
                       IsTruncated = Some more,
                       NextKeyMarker =
                         (if more \<and> page \<noteq> [] then Some (okey (last page)) else None)\<rparr>,
                None), s)))"

definition s3_DeleteObjects :: "DeleteObjectsInput \<Rightarrow> s3 \<Rightarrow> sdk_error option \<times> s3" where
  "s3_DeleteObjects input s =
     (if ''DeleteObjects'' \<in> set (forbidden s) then (Some (SdkError ''AccessDenied''), s)
      else case lookup_bucket (DeleteObjectsInput.Bucket input) s of
        None \<Rightarrow> (Some (SdkError ''NoSuchBucket: The specified bucket does not exist''), s)
      | Some _ \<Rightarrow>
          (let doomed = (case Delete input of None \<Rightarrow> [] | Some d \<Rightarrow> Objects d);
               keep = (\<lambda>x. \<lparr>ObjectIdentifier.Key = Some (okey x),
                            ObjectIdentifier.VersionId = Some (oversion x)\<rparr> \<notin> set doomed)
           in (None,
               s\<lparr>buckets :=
                   map (\<lambda>b. if Some (bname b) = DeleteObjectsInput.Bucket input
                             then b\<lparr>bobjects := filter keep (bobjects b)\<rparr> else b)
                     (buckets s)\<rparr>)))"

definition s3_CreateBucket :: "CreateBucketInput \<Rightarrow> s3 \<Rightarrow> sdk_error option \<times> s3" where
  "s3_CreateBucket input s =
     (if ''CreateBucket'' \<in> set (forbidden s) then (Some (SdkError ''AccessDenied''), s)
      else case lookup_bucket (CreateBucketInput.Bucket input) s of
        Some _ \<Rightarrow> (Some (SdkError ''BucketAlreadyExists''), s)
      | None \<Rightarrow>
          (None,
           s\<lparr>buckets := buckets s
                @ [\<lparr>bname = ToString (CreateBucketInput.Bucket input), btags = None,
                    bobjects = []\<rparr>]\<rparr>))"

definition not_implemented :: sdk_error where
  "not_implemented = SdkError ''NotImplemented''"

text \<open>Sessions exist for every region with a name; the client is named by its region.\<close>

definition s3_aws :: "(string, s3) aws" where
  "s3_aws =
     \<lparr>NewAuthenticatedSession =
        (\<lambda>region. if region = [] then Inl (SdkError ''MissingRegion'') else Inr region),
      ListBuckets = (\<lambda>c. s3_ListBuckets),
      GetBucketTagging = (\<lambda>c. s3_GetBucketTagging),
      GetObject = (\<lambda>c input s. ((None, Some not_implemented), s)),
      PutObject = (\<lambda>c input s. (Some not_implemented, s)),
      CreateBucket = (\<lambda>c. s3_CreateBucket),
      PutBucketPolicy = (\<lambda>c input s. (Some not_implemented, s)),
      PutBucketVersioning = (\<lambda>c input s. (Some not_implemented, s)),
      DeleteBucket = (\<lambda>c name s. (Some not_implemented, s)),
      ListObjectVersions = (\<lambda>c. s3_ListObjectVersions),
      DeleteObjects = (\<lambda>c. s3_DeleteObjects),
      GetBucketLogging = (\<lambda>c name s. ((None, Some not_implemented), s)),
      GetBucketVersioning = (\<lambda>c name s. ((None, Some not_implemented), s)),
      GetBucketPolicy = (\<lambda>c name s. ((None, Some not_implemented), s)),
      GetBucketOwnershipControls = (\<lambda>c name s. ((None, Some not_implemented), s)),
      HeadBucket = (\<lambda>c name s. (Some not_implemented, s))\<rparr>"

text \<open>What a bucket of the store holds: its versions and its delete markers.\<close>

definition bucket_contents :: "string \<Rightarrow> s3 \<Rightarrow> s3_object list" where
  "bucket_contents name s =
     (case lookup_bucket (Some name) s of None \<Rightarrow> [] | Some b \<Rightarrow> bobjects b)"

definition fresh :: "'s \<Rightarrow> 's world" where
  "fresh s = \<lparr>cloud = s, calls = []\<rparr>"

text \<open>Stores to run the helpers on.\<close>

definition no_buckets :: s3 where
  "no_buckets = \<lparr>buckets = [], forbidden = [], max_keys = 1000\<rparr>"

definition markers_only :: s3 where
  "markers_only =
     \<lparr>buckets = [\<lparr>bname = ''logs'', btags = Some [],
                   bobjects = [\<lparr>okey = ''run.log'', oversion = ''v2'', omarker = True\<rparr>]\<rparr>],
      forbidden = [], max_keys = 1000\<rparr>"

definition untagged :: s3 where
  "untagged =
     \<lparr>buckets = [\<lparr>bname = ''logs'', btags = None, bobjects = []\<rparr>],
      forbidden = [], max_keys = 1000\<rparr>"

definition tagged :: s3 where
  "tagged =
     \<lparr>buckets = [\<lparr>bname = ''logs'',
                   btags = Some [\<lparr>Tag.Key = Some ''team'', Tag.Value = Some ''infra''\<rparr>,
                                 \<lparr>Tag.Key = Some ''env'', Tag.Value = Some ''test''\<rparr>,
                                 \<lparr>Tag.Key = Some ''team'', Tag.Value = Some ''data''\<rparr>],
                   bobjects = []\<rparr>],
      forbidden = [], max_keys = 1000\<rparr>"

definition tags_locked :: s3 where
  "tags_locked =
     \<lparr>buckets = [\<lparr>bname = ''logs'', btags = Some [], bobjects = []\<rparr>],
      forbidden = [''GetBucketTagging''], max_keys = 1000\<rparr>"

text \<open>
  A bucket listed in pages of two entries, the states after the bulk delete of each page,
  and the two pages.
\<close>

definition paged :: s3 where
  "paged =
     \<lparr>buckets = [\<lparr>bname = ''logs'', btags = Some [],
                   bobjects = [\<lparr>okey = ''a.log'', oversion = ''v1'', omarker = False\<rparr>,
                               \<lparr>okey = ''a.log'', oversion = ''v2'', omarker = True\<rparr>,
                               \<lparr>okey = ''b.log'', oversion = ''v1'', omarker = False\<rparr>]\<rparr>],
      forbidden = [], max_keys = 2\<rparr>"

definition paged_rest :: s3 where
  "paged_rest =
     \<lparr>buckets = [\<lparr>bname = ''logs'', btags = Some [],
                   bobjects = [\<lparr>okey = ''b.log'', oversion = ''v1'', omarker = False\<rparr>]\<rparr>],
      forbidden = [], max_keys = 2\<rparr>"

definition paged_done :: s3 where
  "paged_done =
     \<lparr>buckets = [\<lparr>bname = ''logs'', btags = Some [], bobjects = []\<rparr>],
      forbidden = [], max_keys = 2\<rparr>"

definition first_page :: ListObjectVersionsOutput where
  "first_page =
     \<lparr>Versions = [\<lparr>ObjectVersion.Key = Some ''a.log'', ObjectVersion.VersionId = Some ''v1''\<rparr>],
      DeleteMarkers = [\<lparr>DeleteMarkerEntry.Key = Some ''a.log'',
                        DeleteMarkerEntry.VersionId = Some ''v2''\<rparr>],
      IsTruncated = Some True, NextKeyMarker = Some ''a.log''\<rparr>"

definition second_page :: ListObjectVersionsOutput where
  "second_page =
     \<lparr>Versions = [\<lparr>ObjectVersion.Key = Some ''b.log'', ObjectVersion.VersionId = Some ''v1''\<rparr>],
      DeleteMarkers = [], IsTruncated = Some False, NextKeyMarker = None\<rparr>"

definition list_logs :: "string option \<Rightarrow> ListObjectVersionsInput" where
  "list_logs marker = \<lparr>ListObjectVersionsInput.Bucket = Some ''logs'', KeyMarker = marker\<rparr>"

text \<open>The paged bucket in a store that refuses bulk deletes.\<close>

definition read_only_paged :: s3 where
  "read_only_paged =
     \<lparr>buckets = [\<lparr>bname = ''logs'', btags = Some [],
                   bobjects = [\<lparr>okey = ''a.log'', oversion = ''v1'', omarker = False\<rparr>,
                               \<lparr>okey = ''a.log'', oversion = ''v2'', omarker = True\<rparr>,
                               \<lparr>okey = ''b.log'', oversion = ''v1'', omarker = False\<rparr>]\<rparr>],
      forbidden = [''DeleteObjects''], max_keys = 2\<rparr>"

text \<open>A bucket without tags listed before a bucket that carries the pair.\<close>

definition untagged_first :: s3 where
  "untagged_first =
     \<lparr>buckets = [\<lparr>bname = ''logs'', btags = None, bobjects = []\<rparr>,
                  \<lparr>bname = ''data'',
                   btags = Some [\<lparr>Tag.Key = Some ''team'', Tag.Value = Some ''infra''\<rparr>],
                   bobjects = []\<rparr>],
      forbidden = [], max_keys = 1000\<rparr>"

section \<open>Properties\<close>

text \<open>The definitions unfolded in runs on the object store, and those of the helpers.\<close>

lemmas s3_defs =
  s3_aws_def s3_ListBuckets_def s3_GetBucketTagging_def s3_ListObjectVersions_def
  s3_DeleteObjects_def s3_CreateBucket_def lookup_bucket_def not_implemented_def fresh_def
  invoke_def NewS3ClientE_def

lemmas single_call_defs =
  GetS3BucketTagsE_def GetS3ObjectContentsE_def PutS3ObjectContentsE_def CreateS3BucketE_def
  PutS3BucketPolicyE_def PutS3BucketVersioningE_def DeleteS3BucketE_def
  GetS3BucketLoggingTargetE_def GetS3BucketLoggingTargetPrefixE_def GetS3BucketVersioningE_def
  GetS3BucketPolicyE_def GetS3BucketOwnershipControlsE_def AssertS3BucketExistsE_def
  AssertS3BucketVersioningExistsE_def AssertS3BucketPolicyExistsE_def
  get_object_request_def put_object_request_def create_bucket_request_def
  put_policy_request_def put_versioning_request_def

text \<open>Runs on the object store that several of the properties below refer to.\<close>

lemma eu_session: "NewAuthenticatedSession s3_aws ''eu-west-1'' = Inr ''eu-west-1''"
  by (simp add: s3_aws_def)

lemma find_on_tags_locked:
  "FindS3BucketWithTagE s3_aws ''eu-west-1'' ''team'' ''infra'' (fresh tags_locked) =
     (Returns ([], Some (Sdk (SdkError ''AccessDenied''))),
      \<lparr>cloud = tags_locked, calls = [CallListBuckets, CallGetBucketTagging (Some ''logs'')]\<rparr>)"
  by (simp add: FindS3BucketWithTagE_def bucket_round_def s3_defs tags_locked_def)

lemma find_on_untagged:
  "FindS3BucketWithTagE s3_aws ''eu-west-1'' ''team'' ''infra'' (fresh untagged) =
     (Panics, \<lparr>cloud = untagged, calls = [CallListBuckets, CallGetBucketTagging (Some ''logs'')]\<rparr>)"
  by (simp add: FindS3BucketWithTagE_def bucket_round_def bucket_tags_match_def s3_defs
      untagged_def)

lemma find_on_tagged:
  "FindS3BucketWithTagE s3_aws ''eu-west-1'' ''team'' ''data'' (fresh tagged) =
     (Returns (''logs'', None),
      \<lparr>cloud = tagged, calls = [CallListBuckets, CallGetBucketTagging (Some ''logs'')]\<rparr>)"
  by (simp add: FindS3BucketWithTagE_def bucket_round_def bucket_tags_match_def s3_defs
      tagged_def)

lemma empty_on_markers_only:
  "EmptyS3BucketE s3_aws ''eu-west-1'' ''logs'' (fresh markers_only) =
     Some (Returns None,
           \<lparr>cloud = markers_only,
            calls = [CallListObjectVersions
                       \<lparr>ListObjectVersionsInput.Bucket = Some ''logs'', KeyMarker = None\<rparr>]\<rparr>)"
  apply (simp add: EmptyS3BucketE_def NewS3ClientE_def s3_aws_def)
  apply (subst EmptyS3BucketE_loop.simps)
  apply (simp add: EmptyS3BucketE_pass_def s3_defs markers_only_def)
  done

subsection \<open>Emptying a bucket that holds only delete markers\<close>

text \<open>
  Claim C1: whenever \<^verbatim>\<open>EmptyS3BucketE\<close> returns \<^verbatim>\<open>nil\<close>, the bucket holds neither
  object versions nor delete markers, also when a listing has no \<^verbatim>\<open>Versions\<close> but some
  \<^verbatim>\<open>DeleteMarkers\<close>.

  The code does otherwise. On a bucket whose only entry is a delete marker the first
  listing has an empty \<^verbatim>\<open>Versions\<close>, the function returns \<^verbatim>\<open>nil\<close> at once ("Bucket
  is already empty"), no \<^verbatim>\<open>DeleteObjects\<close> call is issued, and the marker stays.
\<close>

theorem EmptyS3BucketE_keeps_delete_markers:
  "EmptyS3BucketE s3_aws ''eu-west-1'' ''logs'' (fresh markers_only) =
     Some (Returns None,
           \<lparr>cloud = markers_only,
            calls = [CallListObjectVersions
                       \<lparr>ListObjectVersionsInput.Bucket = Some ''logs'', KeyMarker = None\<rparr>]\<rparr>)
   \<and> bucket_contents ''logs'' markers_only =
       [\<lparr>okey = ''run.log'', oversion = ''v2'', omarker = True\<rparr>]"
  by (simp add: empty_on_markers_only) (simp add: bucket_contents_def s3_defs markers_only_def)

subsection \<open>Tags as a map\<close>

lemma tags_loop_map_of:
  "tags_loop ts m =
     m ++ map_of (rev (map (\<lambda>tag. (ToString (Tag.Key tag), ToString (Tag.Value tag))) ts))"
proof (induction ts arbitrary: m)
  case Nil
  then show ?case by simp
next
  case (Cons t ts)
  have "m(ToString (Tag.Key t) \<mapsto> ToString (Tag.Value t)) =
          m ++ [ToString (Tag.Key t) \<mapsto> ToString (Tag.Value t)]"
    by simp
  then show ?case
    by (simp only: tags_loop.simps Cons.IH list.map rev.simps map_of_append map_add_assoc
          map_of.simps fst_conv snd_conv)
qed

text \<open>
  Claim C7: on a successful \<^verbatim>\<open>GetBucketTagging\<close> response, \<^verbatim>\<open>GetS3BucketTagsE\<close> returns
  the map whose entries are the (key, value) pairs of the response's \<^verbatim>\<open>TagSet\<close>, a later
  pair with the same key replacing an earlier one (the map of the reversed list of pairs,
  in which the first pair found for a key is the last one of the tag set); when the SDK
  call fails it returns the \<^verbatim>\<open>nil\<close> map and the error.
\<close>

theorem GetS3BucketTagsE_marshals_tags:
  "NewAuthenticatedSession env awsRegion = Inr c \<Longrightarrow>
   (\<forall>out s'. GetBucketTagging env c (Some bucket) (cloud w) = ((Some out, None), s') \<longrightarrow>
      fst (GetS3BucketTagsE env awsRegion bucket w) =
        Returns (Some (map_of (rev (map (\<lambda>tag. (ToString (Tag.Key tag), ToString (Tag.Value tag)))
                                   (TagSet out)))), None)) \<and>
   (\<forall>out err s'. GetBucketTagging env c (Some bucket) (cloud w) = ((out, Some err), s') \<longrightarrow>
      fst (GetS3BucketTagsE env awsRegion bucket w) = Returns (None, Some (Sdk err)))"
  by (auto simp: GetS3BucketTagsE_def NewS3ClientE_def invoke_def tags_loop_map_of
      split: option.splits)

theorem GetS3BucketTagsE_marshals_tags_witness:
  "NewAuthenticatedSession s3_aws ''eu-west-1'' = Inr ''eu-west-1'' \<and>
   GetBucketTagging s3_aws ''eu-west-1'' (Some ''logs'') (cloud (fresh tagged)) =
     ((Some \<lparr>TagSet = [\<lparr>Tag.Key = Some ''team'', Tag.Value = Some ''infra''\<rparr>,
                        \<lparr>Tag.Key = Some ''env'', Tag.Value = Some ''test''\<rparr>,
                        \<lparr>Tag.Key = Some ''team'', Tag.Value = Some ''data''\<rparr>]\<rparr>, None), tagged) \<and>
   fst (GetS3BucketTagsE s3_aws ''eu-west-1'' ''logs'' (fresh tagged)) =
     Returns (Some [''env'' \<mapsto> ''test'', ''team'' \<mapsto> ''data''], None) \<and>
   GetBucketTagging s3_aws ''eu-west-1'' (Some ''logs'') (cloud (fresh untagged)) =
     ((None, Some (SdkError ''NoSuchTagSet: The TagSet does not exist'')), untagged) \<and>
   fst (GetS3BucketTagsE s3_aws ''eu-west-1'' ''logs'' (fresh untagged)) =
     Returns (None, Some (Sdk (SdkError ''NoSuchTagSet: The TagSet does not exist'')))"
proof -
  have session: "NewAuthenticatedSession s3_aws ''eu-west-1'' = Inr ''eu-west-1''"
    by (simp add: s3_aws_def)
  have found: "GetBucketTagging s3_aws ''eu-west-1'' (Some ''logs'') (cloud (fresh tagged)) =
     ((Some \<lparr>TagSet = [\<lparr>Tag.Key = Some ''team'', Tag.Value = Some ''infra''\<rparr>,
                        \<lparr>Tag.Key = Some ''env'', Tag.Value = Some ''test''\<rparr>,
                        \<lparr>Tag.Key = Some ''team'', Tag.Value = Some ''data''\<rparr>]\<rparr>, None), tagged)"
    by (simp add: s3_defs tagged_def)
  have missing: "GetBucketTagging s3_aws ''eu-west-1'' (Some ''logs'') (cloud (fresh untagged)) =
     ((None, Some (SdkError ''NoSuchTagSet: The TagSet does not exist'')), untagged)"
    by (simp add: s3_defs untagged_def)
  have "fst (GetS3BucketTagsE s3_aws ''eu-west-1'' ''logs'' (fresh tagged)) =
     Returns (Some [''env'' \<mapsto> ''test'', ''team'' \<mapsto> ''data''], None)"
    using GetS3BucketTagsE_marshals_tags [OF session, of "''logs''" "fresh tagged"] found
    by (auto simp: fun_upd_def)
  moreover have "fst (GetS3BucketTagsE s3_aws ''eu-west-1'' ''logs'' (fresh untagged)) =
     Returns (None, Some (Sdk (SdkError ''NoSuchTagSet: The TagSet does not exist'')))"
    using GetS3BucketTagsE_marshals_tags [OF session, of "''logs''" "fresh untagged"] missing
    by simp
  ultimately show ?thesis using session found missing by simp
qed

subsection \<open>Finding a bucket by tag when a bucket has no tag set\<close>

text \<open>
  Claim C8: \<^verbatim>\<open>FindS3BucketWithTagE\<close> never dereferences a \<^verbatim>\<open>nil\<close> tagging response,
  also after an error containing \<^verbatim>\<open>AuthorizationHeaderMalformed\<close>, \<^verbatim>\<open>BucketRegionError\<close>
  or \<^verbatim>\<open>NoSuchTagSet\<close>.

  The code does otherwise. The SDK returns a \<^verbatim>\<open>nil\<close> output with every error; for a listed
  bucket without tags \<^verbatim>\<open>GetBucketTagging\<close> fails with \<^verbatim>\<open>NoSuchTagSet\<close>, the error check
  lets the round go on, and \<^verbatim>\<open>tagResponse.TagSet\<close> is read through the \<^verbatim>\<open>nil\<close> pointer.
\<close>

theorem FindS3BucketWithTagE_panics_on_untagged_bucket:
  "FindS3BucketWithTagE s3_aws ''eu-west-1'' ''team'' ''infra'' (fresh untagged) =
     (Panics, \<lparr>cloud = untagged, calls = [CallListBuckets, CallGetBucketTagging (Some ''logs'')]\<rparr>)"
  by (rule find_on_untagged)

subsection \<open>The CreateBucket request\<close>

text \<open>
  Claim C10: the request that \<^verbatim>\<open>CreateS3BucketE\<close> sends has \<^verbatim>\<open>ObjectOwnership\<close> set to
  \<^verbatim>\<open>ObjectWriter\<close>, and carries a \<^verbatim>\<open>CreateBucketConfiguration\<close> whose
  \<^verbatim>\<open>LocationConstraint\<close> is the region exactly when the region is not \<^verbatim>\<open>us-east-1\<close>; for
  \<^verbatim>\<open>us-east-1\<close> there is none. It is the only call the function issues.
\<close>

theorem CreateS3BucketE_request:
  "NewAuthenticatedSession env region = Inr c \<Longrightarrow>
   \<exists>err s'. CreateS3BucketE env region name w =
     (Returns err,
      \<lparr>cloud = s',
       calls = calls w @
         [CallCreateBucket
            \<lparr>CreateBucketInput.Bucket = Some name,
             CreateBucketInput.ObjectOwnership = ObjectOwnershipObjectWriter,
             CreateBucketConfiguration =
               (if region = ''us-east-1'' then None
                else Some \<lparr>LocationConstraint = region\<rparr>)\<rparr>]\<rparr>)"
  by (auto simp: CreateS3BucketE_def NewS3ClientE_def invoke_def Let_def split: prod.splits)

theorem CreateS3BucketE_request_witness:
  "NewAuthenticatedSession s3_aws ''us-east-1'' = Inr ''us-east-1'' \<and>
   NewAuthenticatedSession s3_aws ''eu-west-1'' = Inr ''eu-west-1'' \<and>
   calls (snd (CreateS3BucketE s3_aws ''us-east-1'' ''logs'' (fresh no_buckets))) =
     [CallCreateBucket
        \<lparr>CreateBucketInput.Bucket = Some ''logs'',
         CreateBucketInput.ObjectOwnership = ''ObjectWriter'',
         CreateBucketConfiguration = None\<rparr>] \<and>
   calls (snd (CreateS3BucketE s3_aws ''eu-west-1'' ''logs'' (fresh no_buckets))) =
     [CallCreateBucket
        \<lparr>CreateBucketInput.Bucket = Some ''logs'',
         CreateBucketInput.ObjectOwnership = ''ObjectWriter'',
         CreateBucketConfiguration = Some \<lparr>LocationConstraint = ''eu-west-1''\<rparr>\<rparr>]"
proof -
  have us: "NewAuthenticatedSession s3_aws ''us-east-1'' = Inr ''us-east-1''"
    and eu: "NewAuthenticatedSession s3_aws ''eu-west-1'' = Inr ''eu-west-1''"
    by (simp_all add: s3_aws_def)
  from CreateS3BucketE_request [OF us, of "''logs''" "fresh no_buckets"]
  have "calls (snd (CreateS3BucketE s3_aws ''us-east-1'' ''logs'' (fresh no_buckets))) =
     [CallCreateBucket
        \<lparr>CreateBucketInput.Bucket = Some ''logs'',
         CreateBucketInput.ObjectOwnership = ''ObjectWriter'',
         CreateBucketConfiguration = None\<rparr>]"
    by (auto simp: fresh_def ObjectOwnershipObjectWriter_def)
  moreover from CreateS3BucketE_request [OF eu, of "''logs''" "fresh no_buckets"]
  have "calls (snd (CreateS3BucketE s3_aws ''eu-west-1'' ''logs'' (fresh no_buckets))) =
     [CallCreateBucket
        \<lparr>CreateBucketInput.Bucket = Some ''logs'',
         CreateBucketInput.ObjectOwnership = ''ObjectWriter'',
         CreateBucketConfiguration = Some \<lparr>LocationConstraint = ''eu-west-1''\<rparr>\<rparr>]"
    by (auto simp: fresh_def ObjectOwnershipObjectWriter_def)
  ultimately show ?thesis using us eu by simp
qed

subsection \<open>The pagination loop\<close>

text \<open>What one pass of the loop does, by the listing it gets.\<close>

lemma pass_last:
  assumes "ListObjectVersions env c params (cloud w) = ((out, err), s1)" and "\<not> goes_on out err"
  shows "\<exists>r p w'. EmptyS3BucketE_pass env c name params w = (Some r, p, w')"
  using assms
  by (auto simp: EmptyS3BucketE_pass_def invoke_def goes_on_def Let_def
      split: option.splits prod.splits bool.splits)

lemma pass_next:
  assumes "ListObjectVersions env c params (cloud w) = ((Some page, None), s1)"
    and "Versions page \<noteq> []" and "IsTruncated page = Some True"
    and "NextKeyMarker page = Some marker"
    and "DeleteObjects env c (delete_request name page) s1 = (derr, s2)"
  shows "EmptyS3BucketE_pass env c name params w =
           (case derr of
              Some e \<Rightarrow> (Some (Returns (Some (Sdk e))), params,
                          \<lparr>cloud = s2, calls = calls w @ [CallListObjectVersions params,
                              CallDeleteObjects (delete_request name page)]\<rparr>)
            | None \<Rightarrow> (None, params\<lparr>KeyMarker := Some marker\<rparr>,
                        \<lparr>cloud = s2, calls = calls w @ [CallListObjectVersions params,
                              CallDeleteObjects (delete_request name page)]\<rparr>))"
  using assms
  by (auto simp: EmptyS3BucketE_pass_def invoke_def Let_def delete_request_def
      split: option.splits prod.splits bool.splits)

lemma paged_first_listing:
  "ListObjectVersions s3_aws c (list_logs None) paged = ((Some first_page, None), paged)"
  by (simp add: s3_defs paged_def first_page_def list_logs_def)

lemma paged_first_delete:
  "DeleteObjects s3_aws c (delete_request ''logs'' first_page) paged = (None, paged_rest)"
  by (simp add: s3_defs paged_def paged_rest_def first_page_def delete_request_def)

lemma paged_second_listing:
  "ListObjectVersions s3_aws c (list_logs (Some ''a.log'')) paged_rest =
     ((Some second_page, None), paged_rest)"
  by (simp add: s3_defs paged_rest_def second_page_def list_logs_def)

lemma paged_second_delete:
  "DeleteObjects s3_aws c (delete_request ''logs'' second_page) paged_rest = (None, paged_done)"
  by (simp add: s3_defs paged_rest_def paged_done_def second_page_def delete_request_def)

lemma pass_no_versions:
  assumes "ListObjectVersions env c params (cloud w) = ((Some page, None), s1)"
    and "Versions page = []"
  shows "EmptyS3BucketE_pass env c name params w =
           (Some (Returns None), params,
            \<lparr>cloud = s1, calls = calls w @ [CallListObjectVersions params]\<rparr>)"
  using assms by (simp add: EmptyS3BucketE_pass_def invoke_def)

lemma pass_not_truncated:
  assumes "ListObjectVersions env c params (cloud w) = ((Some page, None), s1)"
    and "Versions page \<noteq> []" and "IsTruncated page = Some False"
    and "DeleteObjects env c (delete_request name page) s1 = (None, s2)"
  shows "EmptyS3BucketE_pass env c name params w =
           (Some (Returns None), params,
            \<lparr>cloud = s2, calls = calls w @ [CallListObjectVersions params,
                CallDeleteObjects (delete_request name page)]\<rparr>)"
  using assms by (simp add: EmptyS3BucketE_pass_def invoke_def Let_def delete_request_def)

lemma pass_listing_fails:
  assumes "ListObjectVersions env c params (cloud w) = ((out, Some err), s1)"
  shows "EmptyS3BucketE_pass env c name params w =
           (Some (Returns (Some (Sdk err))), params,
            \<lparr>cloud = s1, calls = calls w @ [CallListObjectVersions params]\<rparr>)"
  using assms by (simp add: EmptyS3BucketE_pass_def invoke_def split: option.splits)

lemma pass_delete_fails:
  assumes "ListObjectVersions env c params (cloud w) = ((Some page, None), s1)"
    and "Versions page \<noteq> []"
    and "DeleteObjects env c (delete_request name page) s1 = (Some err, s2)"
  shows "EmptyS3BucketE_pass env c name params w =
           (Some (Returns (Some (Sdk err))), params,
            \<lparr>cloud = s2, calls = calls w @ [CallListObjectVersions params,
                CallDeleteObjects (delete_request name page)]\<rparr>)"
  using assms by (simp add: EmptyS3BucketE_pass_def invoke_def Let_def delete_request_def)

lemma read_only_first_listing:
  "ListObjectVersions s3_aws c (list_logs None) read_only_paged =
     ((Some first_page, None), read_only_paged)"
  by (simp add: s3_defs read_only_paged_def first_page_def list_logs_def)

lemma read_only_first_delete:
  "DeleteObjects s3_aws c (delete_request ''logs'' first_page) read_only_paged =
     (Some (SdkError ''AccessDenied''), read_only_paged)"
  by (simp add: s3_defs read_only_paged_def)

text \<open>
  Claim C4, as the code has it: \<^verbatim>\<open>EmptyS3BucketE\<close>, once it has its client, is the loop
  started with the bucket's name and no key marker. Each pass lists the object versions
  of the bucket from the current marker. A failed listing returns its error. A listing
  with an empty \<^verbatim>\<open>Versions\<close> returns \<^verbatim>\<open>nil\<close> at once, after that single call. Otherwise
  the pass issues one \<^verbatim>\<open>DeleteObjects\<close> call with every listed version and every listed
  delete marker; if that call fails, its error is returned; if it succeeds, the loop goes
  round again with \<^verbatim>\<open>KeyMarker\<close> set to \<^verbatim>\<open>NextKeyMarker\<close> when the listing reports
  \<^verbatim>\<open>IsTruncated\<close> true and names that marker, and leaves (returning \<^verbatim>\<open>nil\<close>) when it
  reports \<^verbatim>\<open>IsTruncated\<close> false.
\<close>

theorem EmptyS3BucketE_pagination:
  "NewAuthenticatedSession env region = Inr c \<Longrightarrow>
   EmptyS3BucketE env region name w =
     EmptyS3BucketE_loop env c name
       \<lparr>ListObjectVersionsInput.Bucket = Some name, KeyMarker = None\<rparr> w \<and>
   (\<forall>out err s1.
      ListObjectVersions env c
        \<lparr>ListObjectVersionsInput.Bucket = Some name, KeyMarker = from\<rparr> (cloud w) =
        ((out, Some err), s1) \<longrightarrow>
      EmptyS3BucketE_loop env c name
          \<lparr>ListObjectVersionsInput.Bucket = Some name, KeyMarker = from\<rparr> w =
        Some (Returns (Some (Sdk err)),
              after w s1 [CallListObjectVersions
                \<lparr>ListObjectVersionsInput.Bucket = Some name, KeyMarker = from\<rparr>])) \<and>
   (\<forall>page s1.
      ListObjectVersions env c
        \<lparr>ListObjectVersionsInput.Bucket = Some name, KeyMarker = from\<rparr> (cloud w) =
        ((Some page, None), s1) \<longrightarrow>
      (Versions page = [] \<longrightarrow>
         EmptyS3BucketE_loop env c name
             \<lparr>ListObjectVersionsInput.Bucket = Some name, KeyMarker = from\<rparr> w =
           Some (Returns None,
                 after w s1 [CallListObjectVersions
                   \<lparr>ListObjectVersionsInput.Bucket = Some name, KeyMarker = from\<rparr>])) \<and>
      (Versions page \<noteq> [] \<longrightarrow>
         (\<forall>err s2.
            DeleteObjects env c (delete_request name page) s1 = (Some err, s2) \<longrightarrow>
            EmptyS3BucketE_loop env c name
                \<lparr>ListObjectVersionsInput.Bucket = Some name, KeyMarker = from\<rparr> w =
              Some (Returns (Some (Sdk err)),
                    after w s2
                      [CallListObjectVersions
                         \<lparr>ListObjectVersionsInput.Bucket = Some name, KeyMarker = from\<rparr>,
                       CallDeleteObjects (delete_request name page)])) \<and>
         (\<forall>s2.
            DeleteObjects env c (delete_request name page) s1 = (None, s2) \<longrightarrow>
            (\<forall>marker.
               IsTruncated page = Some True \<and> NextKeyMarker page = Some marker \<longrightarrow>
               EmptyS3BucketE_loop env c name
                   \<lparr>ListObjectVersionsInput.Bucket = Some name, KeyMarker = from\<rparr> w =
                 EmptyS3BucketE_loop env c name
                   \<lparr>ListObjectVersionsInput.Bucket = Some name, KeyMarker = Some marker\<rparr>
                   (after w s2
                      [CallListObjectVersions
                         \<lparr>ListObjectVersionsInput.Bucket = Some name, KeyMarker = from\<rparr>,
                       CallDeleteObjects (delete_request name page)])) \<and>
            (IsTruncated page = Some False \<longrightarrow>
               EmptyS3BucketE_loop env c name
                   \<lparr>ListObjectVersionsInput.Bucket = Some name, KeyMarker = from\<rparr> w =
                 Some (Returns None,
                       after w s2
                         [CallListObjectVersions
                            \<lparr>ListObjectVersionsInput.Bucket = Some name, KeyMarker = from\<rparr>,
                          CallDeleteObjects (delete_request name page)])))))"
proof -
  let ?params = "\<lparr>ListObjectVersionsInput.Bucket = Some name, KeyMarker = from\<rparr>"
  assume session: "NewAuthenticatedSession env region = Inr c"
  note unfold = EmptyS3BucketE_loop.simps [of env c name ?params w]
  have entry: "EmptyS3BucketE env region name w =
     EmptyS3BucketE_loop env c name
       \<lparr>ListObjectVersionsInput.Bucket = Some name, KeyMarker = None\<rparr> w"
    using session by (simp add: EmptyS3BucketE_def NewS3ClientE_def)
  have listing_fails: "EmptyS3BucketE_loop env c name ?params w =
        Some (Returns (Some (Sdk err)), after w s1 [CallListObjectVersions ?params])"
    if "ListObjectVersions env c ?params (cloud w) = ((out, Some err), s1)" for out err s1
    using pass_listing_fails [OF that, of name] by (simp add: unfold after_def)
  have empty: "EmptyS3BucketE_loop env c name ?params w =
        Some (Returns None, after w s1 [CallListObjectVersions ?params])"
    if "ListObjectVersions env c ?params (cloud w) = ((Some page, None), s1)"
      "Versions page = []" for page s1
    using pass_no_versions [OF that, of name] by (simp add: unfold after_def)
  have delete_fails: "EmptyS3BucketE_loop env c name ?params w =
        Some (Returns (Some (Sdk err)),
              after w s2 [CallListObjectVersions ?params,
                          CallDeleteObjects (delete_request name page)])"
    if "ListObjectVersions env c ?params (cloud w) = ((Some page, None), s1)"
      "Versions page \<noteq> []"
      "DeleteObjects env c (delete_request name page) s1 = (Some err, s2)" for page s1 err s2
    using pass_delete_fails [OF that] by (simp add: unfold after_def)
  have more: "EmptyS3BucketE_loop env c name ?params w =
        EmptyS3BucketE_loop env c name
          \<lparr>ListObjectVersionsInput.Bucket = Some name, KeyMarker = Some marker\<rparr>
          (after w s2 [CallListObjectVersions ?params,
                       CallDeleteObjects (delete_request name page)])"
    if "ListObjectVersions env c ?params (cloud w) = ((Some page, None), s1)"
      "Versions page \<noteq> []" "DeleteObjects env c (delete_request name page) s1 = (None, s2)"
      "IsTruncated page = Some True" "NextKeyMarker page = Some marker" for page s1 s2 marker
    using pass_next [OF that(1,2,4,5,3)] by (simp add: unfold after_def)
  have final: "EmptyS3BucketE_loop env c name ?params w =
        Some (Returns None,
              after w s2 [CallListObjectVersions ?params,
                          CallDeleteObjects (delete_request name page)])"
    if "ListObjectVersions env c ?params (cloud w) = ((Some page, None), s1)"
      "Versions page \<noteq> []" "DeleteObjects env c (delete_request name page) s1 = (None, s2)"
      "IsTruncated page = Some False" for page s1 s2
    using pass_not_truncated [OF that(1,2,4,3)] by (simp add: unfold after_def)
  show ?thesis
    using entry listing_fails empty delete_fails more final by blast
qed

text \<open>
  A truncated listing whose bulk delete is refused: the function returns the error after
  the one pass, and does not go on to the next key marker.
\<close>

theorem EmptyS3BucketE_stops_on_failed_delete:
  "ListObjectVersions s3_aws ''eu-west-1'' (list_logs None) read_only_paged =
     ((Some first_page, None), read_only_paged) \<and>
   IsTruncated first_page = Some True \<and>
   NextKeyMarker first_page = Some ''a.log'' \<and>
   EmptyS3BucketE s3_aws ''eu-west-1'' ''logs'' (fresh read_only_paged) =
     Some (Returns (Some (Sdk (SdkError ''AccessDenied''))),
           \<lparr>cloud = read_only_paged,
            calls = [CallListObjectVersions (list_logs None),
                     CallDeleteObjects (delete_request ''logs'' first_page)]\<rparr>)"
proof -
  have listing: "ListObjectVersions s3_aws ''eu-west-1'' (list_logs None)
      (cloud (fresh read_only_paged)) = ((Some first_page, None), read_only_paged)"
    using read_only_first_listing by (simp add: fresh_def)
  have versions: "Versions first_page \<noteq> []"
    by (simp add: first_page_def)
  have "EmptyS3BucketE_pass s3_aws ''eu-west-1'' ''logs'' (list_logs None) (fresh read_only_paged) =
      (Some (Returns (Some (Sdk (SdkError ''AccessDenied'')))), list_logs None,
       \<lparr>cloud = read_only_paged,
        calls = calls (fresh read_only_paged) @
          [CallListObjectVersions (list_logs None),
           CallDeleteObjects (delete_request ''logs'' first_page)]\<rparr>)"
    by (rule pass_delete_fails [OF listing versions read_only_first_delete])
  then have "EmptyS3BucketE_loop s3_aws ''eu-west-1'' ''logs'' (list_logs None)
      (fresh read_only_paged) =
     Some (Returns (Some (Sdk (SdkError ''AccessDenied''))),
           \<lparr>cloud = read_only_paged,
            calls = [CallListObjectVersions (list_logs None),
                     CallDeleteObjects (delete_request ''logs'' first_page)]\<rparr>)"
    by (subst EmptyS3BucketE_loop.simps) (simp add: fresh_def)
  moreover have "EmptyS3BucketE s3_aws ''eu-west-1'' ''logs'' (fresh read_only_paged) =
      EmptyS3BucketE_loop s3_aws ''eu-west-1'' ''logs'' (list_logs None) (fresh read_only_paged)"
    by (simp add: EmptyS3BucketE_def NewS3ClientE_def eu_session list_logs_def)
  ultimately have "EmptyS3BucketE s3_aws ''eu-west-1'' ''logs'' (fresh read_only_paged) =
     Some (Returns (Some (Sdk (SdkError ''AccessDenied''))),
           \<lparr>cloud = read_only_paged,
            calls = [CallListObjectVersions (list_logs None),
                     CallDeleteObjects (delete_request ''logs'' first_page)]\<rparr>)"
    by simp
  then show ?thesis
    by (simp add: read_only_first_listing first_page_def)
qed

theorem EmptyS3BucketE_pagination_witness:
  "NewAuthenticatedSession s3_aws ''eu-west-1'' = Inr ''eu-west-1'' \<and>
   EmptyS3BucketE s3_aws ''eu-west-1'' ''logs'' (fresh paged) =
     Some (Returns None,
           \<lparr>cloud = paged_done,
            calls = [CallListObjectVersions (list_logs None),
                     CallDeleteObjects (delete_request ''logs'' first_page),
                     CallListObjectVersions (list_logs (Some ''a.log'')),
                     CallDeleteObjects (delete_request ''logs'' second_page)]\<rparr>) \<and>
   EmptyS3BucketE s3_aws ''eu-west-1'' ''logs'' (fresh markers_only) =
     Some (Returns None,
           \<lparr>cloud = markers_only, calls = [CallListObjectVersions (list_logs None)]\<rparr>) \<and>
   EmptyS3BucketE s3_aws ''eu-west-1'' ''logs'' (fresh no_buckets) =
     Some (Returns (Some (Sdk (SdkError ''NoSuchBucket: The specified bucket does not exist''))),
           \<lparr>cloud = no_buckets, calls = [CallListObjectVersions (list_logs None)]\<rparr>) \<and>
   EmptyS3BucketE s3_aws ''eu-west-1'' ''logs'' (fresh read_only_paged) =
     Some (Returns (Some (Sdk (SdkError ''AccessDenied''))),
           \<lparr>cloud = read_only_paged,
            calls = [CallListObjectVersions (list_logs None),
                     CallDeleteObjects (delete_request ''logs'' first_page)]\<rparr>)"
proof -
  note pass = EmptyS3BucketE_pagination [of s3_aws "''eu-west-1''" "''eu-west-1''" "''logs''", OF eu_session]
  let ?after_first =
    "after (fresh paged) paged_rest
       [CallListObjectVersions (list_logs None),
        CallDeleteObjects (delete_request ''logs'' first_page)]"
  have pages: "Versions first_page \<noteq> []" "IsTruncated first_page = Some True"
    "NextKeyMarker first_page = Some ''a.log''" "Versions second_page \<noteq> []"
    "IsTruncated second_page = Some False"
    by (simp_all add: first_page_def second_page_def)
  have "EmptyS3BucketE s3_aws ''eu-west-1'' ''logs'' (fresh paged) =
        EmptyS3BucketE_loop s3_aws ''eu-west-1'' ''logs'' (list_logs (Some ''a.log'')) ?after_first"
    using pass [of "fresh paged" None] pages
      paged_first_listing [of "''eu-west-1''"] paged_first_delete [of "''eu-west-1''"]
    by (simp add: list_logs_def [symmetric] fresh_def)
  also have "\<dots> = Some (Returns None,
           \<lparr>cloud = paged_done,
            calls = [CallListObjectVersions (list_logs None),
                     CallDeleteObjects (delete_request ''logs'' first_page),
                     CallListObjectVersions (list_logs (Some ''a.log'')),
                     CallDeleteObjects (delete_request ''logs'' second_page)]\<rparr>)"
    using pass [of ?after_first "Some ''a.log''"] pages
      paged_second_listing [of "''eu-west-1''"] paged_second_delete [of "''eu-west-1''"]
    by (simp add: list_logs_def [symmetric] after_def fresh_def)
  finally have run: "EmptyS3BucketE s3_aws ''eu-west-1'' ''logs'' (fresh paged) =
     Some (Returns None,
           \<lparr>cloud = paged_done,
            calls = [CallListObjectVersions (list_logs None),
                     CallDeleteObjects (delete_request ''logs'' first_page),
                     CallListObjectVersions (list_logs (Some ''a.log'')),
                     CallDeleteObjects (delete_request ''logs'' second_page)]\<rparr>)" .
  have "ListObjectVersions s3_aws ''eu-west-1'' (list_logs None) markers_only =
     ((Some \<lparr>Versions = [],
             DeleteMarkers = [\<lparr>DeleteMarkerEntry.Key = Some ''run.log'',
                               DeleteMarkerEntry.VersionId = Some ''v2''\<rparr>],
             IsTruncated = Some False, NextKeyMarker = None\<rparr>, None), markers_only)"
    by (simp add: s3_defs markers_only_def list_logs_def)
  with pass [of "fresh markers_only" None]
  have early: "EmptyS3BucketE s3_aws ''eu-west-1'' ''logs'' (fresh markers_only) =
     Some (Returns None,
           \<lparr>cloud = markers_only, calls = [CallListObjectVersions (list_logs None)]\<rparr>)"
    by (simp add: list_logs_def [symmetric] after_def fresh_def)
  have "ListObjectVersions s3_aws ''eu-west-1'' (list_logs None) no_buckets =
     ((None, Some (SdkError ''NoSuchBucket: The specified bucket does not exist'')), no_buckets)"
    by (simp add: s3_defs no_buckets_def list_logs_def)
  with pass [of "fresh no_buckets" None]
  have no_listing: "EmptyS3BucketE s3_aws ''eu-west-1'' ''logs'' (fresh no_buckets) =
     Some (Returns (Some (Sdk (SdkError ''NoSuchBucket: The specified bucket does not exist''))),
           \<lparr>cloud = no_buckets, calls = [CallListObjectVersions (list_logs None)]\<rparr>)"
    by (simp add: list_logs_def [symmetric] after_def fresh_def)
  have no_delete: "EmptyS3BucketE s3_aws ''eu-west-1'' ''logs'' (fresh read_only_paged) =
     Some (Returns (Some (Sdk (SdkError ''AccessDenied''))),
           \<lparr>cloud = read_only_paged,
            calls = [CallListObjectVersions (list_logs None),
                     CallDeleteObjects (delete_request ''logs'' first_page)]\<rparr>)"
    using pass [of "fresh read_only_paged" None] pages
      read_only_first_listing [of "''eu-west-1''"] read_only_first_delete [of "''eu-west-1''"]
    by (simp add: list_logs_def [symmetric] after_def fresh_def)
  show ?thesis using eu_session run early no_listing no_delete by simp
qed

subsection \<open>Termination of the pagination loop\<close>

lemma loop_returns:
  "listing_chain_ends env c name params s \<Longrightarrow>
   \<exists>r w'. EmptyS3BucketE_loop env c name params \<lparr>cloud = s, calls = cs\<rparr> = Some (r, w')"
proof (induction arbitrary: cs rule: listing_chain_ends.induct)
  case (last_listing params s out err s1)
  then obtain r p w' where
    "EmptyS3BucketE_pass env c name params \<lparr>cloud = s, calls = cs\<rparr> = (Some r, p, w')"
    using pass_last [of env c params "\<lparr>cloud = s, calls = cs\<rparr>" out err s1 name] by auto
  then show ?case by (subst EmptyS3BucketE_loop.simps) simp
next
  case (next_listing params s page s1 marker derr s2)
  note pass = pass_next [of env c params "\<lparr>cloud = s, calls = cs\<rparr>" page s1 marker name derr s2,
      simplified, OF next_listing(1-5)]
  show ?case
  proof (cases derr)
    case None
    with next_listing.IH obtain r w' where
      "EmptyS3BucketE_loop env c name (params\<lparr>KeyMarker := Some marker\<rparr>)
         \<lparr>cloud = s2, calls = cs @ [CallListObjectVersions params,
            CallDeleteObjects (delete_request name page)]\<rparr> = Some (r, w')"
      by blast
    with pass None show ?thesis by (subst EmptyS3BucketE_loop.simps) simp
  next
    case (Some e)
    with pass show ?thesis by (subst EmptyS3BucketE_loop.simps) simp
  qed
qed

text \<open>
  Claim C5: if the chain of truncated listings followed through \<^verbatim>\<open>NextKeyMarker\<close> comes
  to a listing that is not truncated or has no versions, the loop makes finitely many
  passes and \<^verbatim>\<open>EmptyS3BucketE\<close> returns. (The chain is that of the client the session
  gives; without a session the function returns before the loop.)
\<close>

theorem EmptyS3BucketE_terminates:
  "\<forall>c. NewAuthenticatedSession env region = Inr c \<longrightarrow>
       listing_chain_ends env c name
         \<lparr>ListObjectVersionsInput.Bucket = Some name, KeyMarker = None\<rparr> (cloud w) \<Longrightarrow>
   \<exists>r w'. EmptyS3BucketE env region name w = Some (r, w')"
proof (cases "NewAuthenticatedSession env region")
  case (Inl err)
  then show ?thesis by (simp add: EmptyS3BucketE_def NewS3ClientE_def)
next
  case (Inr c)
  assume "\<forall>c. NewAuthenticatedSession env region = Inr c \<longrightarrow>
       listing_chain_ends env c name
         \<lparr>ListObjectVersionsInput.Bucket = Some name, KeyMarker = None\<rparr> (cloud w)"
  with Inr have "listing_chain_ends env c name
         \<lparr>ListObjectVersionsInput.Bucket = Some name, KeyMarker = None\<rparr> (cloud w)"
    by simp
  from loop_returns [OF this, of "calls w"] Inr show ?thesis
    by (cases w) (simp add: EmptyS3BucketE_def NewS3ClientE_def)
qed

lemma paged_chain_ends:
  "listing_chain_ends s3_aws c ''logs'' (list_logs None) paged"
proof (rule next_listing [OF paged_first_listing _ _ _ paged_first_delete])
  show "Versions first_page \<noteq> []" "IsTruncated first_page = Some True"
    "NextKeyMarker first_page = Some ''a.log''"
    by (simp_all add: first_page_def)
  have "listing_chain_ends s3_aws c ''logs'' (list_logs (Some ''a.log'')) paged_rest"
    by (rule last_listing [OF paged_second_listing]) (simp add: goes_on_def second_page_def)
  then show "None = None \<longrightarrow>
      listing_chain_ends s3_aws c ''logs'' (list_logs None\<lparr>KeyMarker := Some ''a.log''\<rparr>) paged_rest"
    by (simp add: list_logs_def)
qed

theorem EmptyS3BucketE_terminates_witness:
  "listing_chain_ends s3_aws ''eu-west-1'' ''logs''
     \<lparr>ListObjectVersionsInput.Bucket = Some ''logs'', KeyMarker = None\<rparr> (cloud (fresh paged)) \<and>
   (\<exists>r w'. EmptyS3BucketE s3_aws ''eu-west-1'' ''logs'' (fresh paged) = Some (r, w'))"
proof -
  have chain: "listing_chain_ends s3_aws c ''logs''
     \<lparr>ListObjectVersionsInput.Bucket = Some ''logs'', KeyMarker = None\<rparr> (cloud (fresh paged))"
    for c
    using paged_chain_ends [of c] by (simp add: list_logs_def fresh_def)
  then have "\<forall>c. NewAuthenticatedSession s3_aws ''eu-west-1'' = Inr c \<longrightarrow>
       listing_chain_ends s3_aws c ''logs''
         \<lparr>ListObjectVersionsInput.Bucket = Some ''logs'', KeyMarker = None\<rparr> (cloud (fresh paged))"
    by simp
  from EmptyS3BucketE_terminates [OF this] chain show ?thesis by simp
qed

subsection \<open>Finding no bucket\<close>

lemma tag_scan_lacks_pair:
  "lacks_pair tags key value \<Longrightarrow> tag_scan tags key value = Returns False"
  by (induction tags) (auto simp: lacks_pair_def)

lemma bucket_round_without_match:
  assumes "GetBucketTagging env c (Name bucket) (cloud w) = (r, s')"
    and "lookup_without_match r key value"
  shows "bucket_round env c bucket key value w =
           (None, after w s' [CallGetBucketTagging (Name bucket)])"
  using assms
  by (auto simp: bucket_round_def invoke_def after_def lookup_without_match_def
      bucket_tags_match_def tag_scan_lacks_pair split: option.splits prod.splits)

lemma buckets_loop_without_match:
  "lookups_without_match env c bs key value (cloud w) \<Longrightarrow>
   fst (buckets_loop env c bs key value w) = Returns ([], None) \<and>
   calls (snd (buckets_loop env c bs key value w)) =
     calls w @ map (\<lambda>bucket. CallGetBucketTagging (Name bucket)) bs"
proof (induction bs arbitrary: w)
  case Nil
  show ?case by simp
next
  case (Cons b bs)
  obtain r s' where lookup: "GetBucketTagging env c (Name b) (cloud w) = (r, s')"
    by (cases "GetBucketTagging env c (Name b) (cloud w)")
  let ?w' = "after w s' [CallGetBucketTagging (Name b)]"
  from Cons.prems lookup have here: "lookup_without_match r key value"
    and rest: "lookups_without_match env c bs key value (cloud ?w')"
    by (simp_all add: after_def)
  have round: "bucket_round env c b key value w = (None, ?w')"
    by (rule bucket_round_without_match [OF lookup here])
  from Cons.IH [OF rest] round show ?case by (simp add: after_def)
qed

text \<open>
  Claim C9, as the code has it: when the client exists, \<^verbatim>\<open>ListBuckets\<close> succeeds, and
  the tagging lookup of every listed bucket shows that the bucket does not carry the pair
  (a tag set without it, or the answer \<^verbatim>\<open>NoSuchBucket\<close>), \<^verbatim>\<open>FindS3BucketWithTagE\<close>
  returns the empty string with a \<^verbatim>\<open>nil\<close> error, after one lookup per listed bucket:
  there is no error value for "not found". Errors of the calls themselves are returned
  as errors, as the run after this theorem shows.
\<close>

theorem FindS3BucketWithTagE_not_found:
  assumes "NewAuthenticatedSession env awsRegion = Inr c"
    and "ListBuckets env c (cloud w) = ((Some resp, None), s1)"
    and "lookups_without_match env c (Buckets resp) key value s1"
  shows "fst (FindS3BucketWithTagE env awsRegion key value w) = Returns ([], None) \<and>
         calls (snd (FindS3BucketWithTagE env awsRegion key value w)) =
           calls w @ CallListBuckets #
             map (\<lambda>bucket. CallGetBucketTagging (Name bucket)) (Buckets resp)"
proof -
  let ?w1 = "\<lparr>cloud = s1, calls = calls w @ [CallListBuckets]\<rparr>"
  from assms(3) have "lookups_without_match env c (Buckets resp) key value (cloud ?w1)"
    by simp
  from buckets_loop_without_match [OF this] assms(1,2) show ?thesis
    by (simp add: FindS3BucketWithTagE_def NewS3ClientE_def invoke_def)
qed

text \<open>
  A bucket without the pair whose tags may not be read: the function returns the error of
  the lookup, not the empty result.
\<close>

theorem FindS3BucketWithTagE_refused_lookup:
  "FindS3BucketWithTagE s3_aws ''eu-west-1'' ''team'' ''infra'' (fresh tags_locked) =
     (Returns ([], Some (Sdk (SdkError ''AccessDenied''))),
      \<lparr>cloud = tags_locked, calls = [CallListBuckets, CallGetBucketTagging (Some ''logs'')]\<rparr>)"
  by (rule find_on_tags_locked)

theorem FindS3BucketWithTagE_not_found_witness:
  "NewAuthenticatedSession s3_aws ''eu-west-1'' = Inr ''eu-west-1'' \<and>
   ListBuckets s3_aws ''eu-west-1'' (cloud (fresh tagged)) =
     ((Some \<lparr>Buckets = [\<lparr>Name = Some ''logs''\<rparr>]\<rparr>, None), tagged) \<and>
   lookups_without_match s3_aws ''eu-west-1'' [\<lparr>Name = Some ''logs''\<rparr>] ''team'' ''ops'' tagged \<and>
   fst (FindS3BucketWithTagE s3_aws ''eu-west-1'' ''team'' ''ops'' (fresh tagged)) =
     Returns ([], None) \<and>
   calls (snd (FindS3BucketWithTagE s3_aws ''eu-west-1'' ''team'' ''ops'' (fresh tagged))) =
     [CallListBuckets, CallGetBucketTagging (Some ''logs'')]"
proof -
  have listing: "ListBuckets s3_aws ''eu-west-1'' (cloud (fresh tagged)) =
     ((Some \<lparr>Buckets = [\<lparr>Name = Some ''logs''\<rparr>]\<rparr>, None), tagged)"
    by (simp add: s3_defs tagged_def)
  have lookups:
    "lookups_without_match s3_aws ''eu-west-1'' [\<lparr>Name = Some ''logs''\<rparr>] ''team'' ''ops'' tagged"
    by (simp add: s3_defs tagged_def lookup_without_match_def lacks_pair_def)
  then have "lookups_without_match s3_aws ''eu-west-1''
      (Buckets \<lparr>Buckets = [\<lparr>Name = Some ''logs''\<rparr>]\<rparr>) ''team'' ''ops'' tagged"
    by simp
  from FindS3BucketWithTagE_not_found [OF eu_session listing this] eu_session listing lookups show ?thesis
    by (simp add: fresh_def)
qed

subsection \<open>How many calls a helper issues\<close>

lemma session_one_call:
  assumes "NewAuthenticatedSession env region = Inr c"
  shows
    "one_call (CallGetBucketTagging (Some bucket))
       (GetS3BucketTagsE env region bucket)"
    "one_call (CallGetObject (get_object_request bucket key))
       (GetS3ObjectContentsE env region bucket key)"
    "one_call (CallPutObject (put_object_request bucket key body))
       (PutS3ObjectContentsE env region bucket key body)"
    "one_call (CallCreateBucket (create_bucket_request region bucket))
       (CreateS3BucketE env region bucket)"
    "one_call (CallPutBucketPolicy (put_policy_request bucket policy))
       (PutS3BucketPolicyE env region bucket policy)"
    "one_call (CallPutBucketVersioning (put_versioning_request bucket))
       (PutS3BucketVersioningE env region bucket)"
    "one_call (CallDeleteBucket (Some bucket))
       (DeleteS3BucketE env region bucket)"
    "one_call (CallGetBucketLogging (Some bucket))
       (GetS3BucketLoggingTargetE env region bucket)"
    "one_call (CallGetBucketLogging (Some bucket))
       (GetS3BucketLoggingTargetPrefixE env region bucket)"
    "one_call (CallGetBucketVersioning (Some bucket))
       (GetS3BucketVersioningE env region bucket)"
    "one_call (CallGetBucketPolicy (Some bucket))
       (GetS3BucketPolicyE env region bucket)"
    "one_call (CallGetBucketOwnershipControls (Some bucket))
       (GetS3BucketOwnershipControlsE env region bucket)"
    "one_call (CallHeadBucket (Some bucket))
       (AssertS3BucketExistsE env region bucket)"
    "one_call (CallGetBucketVersioning (Some bucket))
       (AssertS3BucketVersioningExistsE env region bucket)"
    "one_call (CallGetBucketPolicy (Some bucket))
       (AssertS3BucketPolicyExistsE env region bucket)"
  using assms
  unfolding one_call_def
  by (auto simp: single_call_defs NewS3ClientE_def invoke_def Let_def
      split: prod.splits option.splits exec.splits)

lemma no_session_no_call:
  assumes "NewAuthenticatedSession env region = Inl err"
  shows
    "no_call (GetS3BucketTagsE env region bucket)"
    "no_call (GetS3ObjectContentsE env region bucket key)"
    "no_call (PutS3ObjectContentsE env region bucket key body)"
    "no_call (CreateS3BucketE env region bucket)"
    "no_call (PutS3BucketPolicyE env region bucket policy)"
    "no_call (PutS3BucketVersioningE env region bucket)"
    "no_call (DeleteS3BucketE env region bucket)"
    "no_call (GetS3BucketLoggingTargetE env region bucket)"
    "no_call (GetS3BucketLoggingTargetPrefixE env region bucket)"
    "no_call (GetS3BucketVersioningE env region bucket)"
    "no_call (GetS3BucketPolicyE env region bucket)"
    "no_call (GetS3BucketOwnershipControlsE env region bucket)"
    "no_call (AssertS3BucketExistsE env region bucket)"
    "no_call (AssertS3BucketVersioningExistsE env region bucket)"
    "no_call (AssertS3BucketPolicyExistsE env region bucket)"
    "no_call (FindS3BucketWithTagE env region key value)"
  using assms
  unfolding no_call_def
  by (simp_all add: single_call_defs FindS3BucketWithTagE_def NewS3ClientE_def)

text \<open>
  Claim C3, as the code has it: every helper with the suffix \<open>E\<close> other than
  \<^verbatim>\<open>FindS3BucketWithTagE\<close>, \<^verbatim>\<open>EmptyS3BucketE\<close> and the two constructors issues exactly
  one SDK call, the one named here, in every invocation in which the client is made, and
  none when the client cannot be made. \<^verbatim>\<open>FindS3BucketWithTagE\<close> issues none in that case
  either; with a client it issues one call for the list of buckets and one more for each
  bucket it looks at, as the run after this theorem shows.
\<close>

theorem helpers_issue_one_call:
  "(\<forall>c. NewAuthenticatedSession env region = Inr c \<longrightarrow>
      one_call (CallGetBucketTagging (Some bucket))
        (GetS3BucketTagsE env region bucket) \<and>
      one_call (CallGetObject (get_object_request bucket key))
        (GetS3ObjectContentsE env region bucket key) \<and>
      one_call (CallPutObject (put_object_request bucket key body))
        (PutS3ObjectContentsE env region bucket key body) \<and>
      one_call (CallCreateBucket (create_bucket_request region bucket))
        (CreateS3BucketE env region bucket) \<and>
      one_call (CallPutBucketPolicy (put_policy_request bucket policy))
        (PutS3BucketPolicyE env region bucket policy) \<and>
      one_call (CallPutBucketVersioning (put_versioning_request bucket))
        (PutS3BucketVersioningE env region bucket) \<and>
      one_call (CallDeleteBucket (Some bucket))
        (DeleteS3BucketE env region bucket) \<and>
      one_call (CallGetBucketLogging (Some bucket))
        (GetS3BucketLoggingTargetE env region bucket) \<and>
      one_call (CallGetBucketLogging (Some bucket))
        (GetS3BucketLoggingTargetPrefixE env region bucket) \<and>
      one_call (CallGetBucketVersioning (Some bucket))
        (GetS3BucketVersioningE env region bucket) \<and>
      one_call (CallGetBucketPolicy (Some bucket))
        (GetS3BucketPolicyE env region bucket) \<and>
      one_call (CallGetBucketOwnershipControls (Some bucket))
        (GetS3BucketOwnershipControlsE env region bucket) \<and>
      one_call (CallHeadBucket (Some bucket))
        (AssertS3BucketExistsE env region bucket) \<and>
      one_call (CallGetBucketVersioning (Some bucket))
        (AssertS3BucketVersioningExistsE env region bucket) \<and>
      one_call (CallGetBucketPolicy (Some bucket))
        (AssertS3BucketPolicyExistsE env region bucket)) \<and>
   (\<forall>err. NewAuthenticatedSession env region = Inl err \<longrightarrow>
      no_call (GetS3BucketTagsE env region bucket) \<and>
      no_call (GetS3ObjectContentsE env region bucket key) \<and>
      no_call (PutS3ObjectContentsE env region bucket key body) \<and>
      no_call (CreateS3BucketE env region bucket) \<and>
      no_call (PutS3BucketPolicyE env region bucket policy) \<and>
      no_call (PutS3BucketVersioningE env region bucket) \<and>
      no_call (DeleteS3BucketE env region bucket) \<and>
      no_call (GetS3BucketLoggingTargetE env region bucket) \<and>
      no_call (GetS3BucketLoggingTargetPrefixE env region bucket) \<and>
      no_call (GetS3BucketVersioningE env region bucket) \<and>
      no_call (GetS3BucketPolicyE env region bucket) \<and>
      no_call (GetS3BucketOwnershipControlsE env region bucket) \<and>
      no_call (AssertS3BucketExistsE env region bucket) \<and>
      no_call (AssertS3BucketVersioningExistsE env region bucket) \<and>
      no_call (AssertS3BucketPolicyExistsE env region bucket) \<and>
      no_call (FindS3BucketWithTagE env region key value))"
  by (intro conjI allI impI; (erule session_one_call | erule no_session_no_call))

text \<open>One listed bucket, two calls.\<close>

theorem FindS3BucketWithTagE_issues_two_calls:
  "calls (snd (FindS3BucketWithTagE s3_aws ''eu-west-1'' ''team'' ''ops'' (fresh tagged))) =
     [CallListBuckets, CallGetBucketTagging (Some ''logs'')]"
  by (simp add: FindS3BucketWithTagE_def bucket_round_def bucket_tags_match_def s3_defs
      tagged_def)

theorem helpers_issue_one_call_witness:
  "NewAuthenticatedSession s3_aws ''eu-west-1'' = Inr ''eu-west-1'' \<and>
   calls (snd (GetS3BucketTagsE s3_aws ''eu-west-1'' ''logs'' (fresh tagged))) =
     [CallGetBucketTagging (Some ''logs'')] \<and>
   calls (snd (GetS3ObjectContentsE s3_aws ''eu-west-1'' ''logs'' ''a.log'' (fresh tagged))) =
     [CallGetObject (get_object_request ''logs'' ''a.log'')] \<and>
   calls (snd (AssertS3BucketVersioningExistsE s3_aws ''eu-west-1'' ''logs'' (fresh tagged))) =
     [CallGetBucketVersioning (Some ''logs'')] \<and>
   NewAuthenticatedSession s3_aws [] = Inl (SdkError ''MissingRegion'') \<and>
   calls (snd (GetS3BucketTagsE s3_aws [] ''logs'' (fresh tagged))) = [] \<and>
   calls (snd (FindS3BucketWithTagE s3_aws [] ''team'' ''ops'' (fresh tagged))) = []"
proof -
  have none: "NewAuthenticatedSession s3_aws [] = Inl (SdkError ''MissingRegion'')"
    by (simp add: s3_aws_def)
  from helpers_issue_one_call [of s3_aws "''eu-west-1''" "''logs''" "''a.log''"] eu_session
  have "calls (snd (GetS3BucketTagsE s3_aws ''eu-west-1'' ''logs'' (fresh tagged))) =
          [CallGetBucketTagging (Some ''logs'')]"
    "calls (snd (GetS3ObjectContentsE s3_aws ''eu-west-1'' ''logs'' ''a.log'' (fresh tagged))) =
       [CallGetObject (get_object_request ''logs'' ''a.log'')]"
    "calls (snd (AssertS3BucketVersioningExistsE s3_aws ''eu-west-1'' ''logs'' (fresh tagged))) =
       [CallGetBucketVersioning (Some ''logs'')]"
    by (simp_all add: one_call_def fresh_def)
  moreover from helpers_issue_one_call [of s3_aws "[]" "''logs''" "''team''" _ _ "''ops''"] none
  have "calls (snd (GetS3BucketTagsE s3_aws [] ''logs'' (fresh tagged))) = []"
    "calls (snd (FindS3BucketWithTagE s3_aws [] ''team'' ''ops'' (fresh tagged))) = []"
    by (simp_all add: no_call_def fresh_def)
  ultimately show ?thesis using eu_session none by simp
qed

subsection \<open>The variants that fail the test\<close>

lemma asserts_on_I:
  assumes "t = (case e of
        (Panics, w') \<Rightarrow> (TestPanics, w')
      | (Returns (v, err), w') \<Rightarrow> (require_NoError err (Passes v), w'))"
  shows "asserts_on t e"
proof -
  obtain r w' where e: "e = (r, w')" by (cases e)
  show ?thesis
  proof (cases r)
    case Panics
    with e assms show ?thesis by (simp add: asserts_on_def)
  next
    case (Returns p)
    obtain v err where "p = (v, err)" by (cases p)
    with Returns e assms show ?thesis
      by (cases err) (simp_all add: asserts_on_def require_NoError_def)
  qed
qed

lemma asserting_I:
  assumes "\<And>w. f w = (case fE w of
        (Panics, w') \<Rightarrow> (TestPanics, w')
      | (Returns (v, err), w') \<Rightarrow> (require_NoError err (Passes v), w'))"
  shows "asserting f fE"
  unfolding asserting_def by (intro allI asserts_on_I assms)

lemma value_variants:
    "asserting (FindS3BucketWithTag env region key value)
     (FindS3BucketWithTagE env region key value)"
    "asserting (GetS3BucketTags env region bucket)
     (GetS3BucketTagsE env region bucket)"
    "asserting (GetS3ObjectContents env region bucket key)
     (GetS3ObjectContentsE env region bucket key)"
    "asserting (GetS3BucketLoggingTarget env region bucket)
     (GetS3BucketLoggingTargetE env region bucket)"
    "asserting (GetS3BucketLoggingTargetPrefix env region bucket)
     (GetS3BucketLoggingTargetPrefixE env region bucket)"
    "asserting (GetS3BucketVersioning env region bucket)
     (GetS3BucketVersioningE env region bucket)"
    "asserting (GetS3BucketPolicy env region bucket)
     (GetS3BucketPolicyE env region bucket)"
    "asserting (GetS3BucketOwnershipControls env region bucket)
     (GetS3BucketOwnershipControlsE env region bucket)"
    "asserting (\<lambda>w. (NewS3Client env region, w))
     (\<lambda>w. (Returns (NewS3ClientE env region), w))"
    "asserting (\<lambda>w. (NewS3Uploader env region, w))
     (\<lambda>w. (Returns (NewS3UploaderE env region), w))"
  by (rule asserting_I,
      simp add: FindS3BucketWithTag_def GetS3BucketTags_def GetS3ObjectContents_def
        GetS3BucketLoggingTarget_def GetS3BucketLoggingTargetPrefix_def
        GetS3BucketVersioning_def GetS3BucketPolicy_def GetS3BucketOwnershipControls_def
        NewS3Client_def NewS3Uploader_def
      split: prod.splits)+

lemma error_variants:
    "asserting (PutS3ObjectContents env region bucket key body)
     (\<lambda>w. with_unit (PutS3ObjectContentsE env region bucket key body w))"
    "asserting (CreateS3Bucket env region bucket)
     (\<lambda>w. with_unit (CreateS3BucketE env region bucket w))"
    "asserting (PutS3BucketPolicy env region bucket policy)
     (\<lambda>w. with_unit (PutS3BucketPolicyE env region bucket policy w))"
    "asserting (PutS3BucketVersioning env region bucket)
     (\<lambda>w. with_unit (PutS3BucketVersioningE env region bucket w))"
    "asserting (DeleteS3Bucket env region bucket)
     (\<lambda>w. with_unit (DeleteS3BucketE env region bucket w))"
    "asserting (AssertS3BucketExists env region bucket)
     (\<lambda>w. with_unit (AssertS3BucketExistsE env region bucket w))"
    "asserting (AssertS3BucketVersioningExists env region bucket)
     (\<lambda>w. with_unit (AssertS3BucketVersioningExistsE env region bucket w))"
    "asserting (AssertS3BucketPolicyExists env region bucket)
     (\<lambda>w. with_unit (AssertS3BucketPolicyExistsE env region bucket w))"
  by (rule asserting_I,
      simp add: PutS3ObjectContents_def CreateS3Bucket_def PutS3BucketPolicy_def
        PutS3BucketVersioning_def DeleteS3Bucket_def AssertS3BucketExists_def
        AssertS3BucketVersioningExists_def AssertS3BucketPolicyExists_def with_unit_def
      split: prod.splits exec.splits)+

lemma empty_variant:
  "(\<forall>w. case EmptyS3BucketE env region bucket w of
           None \<Rightarrow> EmptyS3Bucket env region bucket w = None
         | Some e \<Rightarrow> (\<exists>t. EmptyS3Bucket env region bucket w = Some t \<and> asserts_on t (with_unit e)))"
proof
  fix w
  show "case EmptyS3BucketE env region bucket w of
           None \<Rightarrow> EmptyS3Bucket env region bucket w = None
         | Some e \<Rightarrow> (\<exists>t. EmptyS3Bucket env region bucket w = Some t \<and> asserts_on t (with_unit e))"
  proof (cases "EmptyS3BucketE env region bucket w")
    case None
    then show ?thesis by (simp add: EmptyS3Bucket_def)
  next
    case (Some e)
    have "asserts_on (case e of
        (Panics, w') \<Rightarrow> (TestPanics, w')
      | (Returns err, w') \<Rightarrow> (require_NoError err (Passes ()), w')) (with_unit e)"
      by (rule asserts_on_I) (simp add: with_unit_def split: prod.splits exec.splits)
    with Some show ?thesis
      by (auto simp: EmptyS3Bucket_def split: prod.splits exec.splits)
  qed
qed

text \<open>
  Claim C2: every helper without the suffix invokes its twin with the suffix \<open>E\<close> and
  nothing else; it stops the test, reporting the error, exactly when the twin returns an
  error, and otherwise returns the value the twin returned. For \<^verbatim>\<open>EmptyS3Bucket\<close> this
  holds whenever the twin comes back, and the variant does not come back when the twin
  does not.
\<close>

theorem test_variants_follow_twins:
  "asserting (FindS3BucketWithTag env region key value)
     (FindS3BucketWithTagE env region key value) \<and>
   asserting (GetS3BucketTags env region bucket)
     (GetS3BucketTagsE env region bucket) \<and>
   asserting (GetS3ObjectContents env region bucket key)
     (GetS3ObjectContentsE env region bucket key) \<and>
   asserting (GetS3BucketLoggingTarget env region bucket)
     (GetS3BucketLoggingTargetE env region bucket) \<and>
   asserting (GetS3BucketLoggingTargetPrefix env region bucket)
     (GetS3BucketLoggingTargetPrefixE env region bucket) \<and>
   asserting (GetS3BucketVersioning env region bucket)
     (GetS3BucketVersioningE env region bucket) \<and>
   asserting (GetS3BucketPolicy env region bucket)
     (GetS3BucketPolicyE env region bucket) \<and>
   asserting (GetS3BucketOwnershipControls env region bucket)
     (GetS3BucketOwnershipControlsE env region bucket) \<and>
   asserting (PutS3ObjectContents env region bucket key body)
     (\<lambda>w. with_unit (PutS3ObjectContentsE env region bucket key body w)) \<and>
   asserting (CreateS3Bucket env region bucket)
     (\<lambda>w. with_unit (CreateS3BucketE env region bucket w)) \<and>
   asserting (PutS3BucketPolicy env region bucket policy)
     (\<lambda>w. with_unit (PutS3BucketPolicyE env region bucket policy w)) \<and>
   asserting (PutS3BucketVersioning env region bucket)
     (\<lambda>w. with_unit (PutS3BucketVersioningE env region bucket w)) \<and>
   asserting (DeleteS3Bucket env region bucket)
     (\<lambda>w. with_unit (DeleteS3BucketE env region bucket w)) \<and>
   asserting (AssertS3BucketExists env region bucket)
     (\<lambda>w. with_unit (AssertS3BucketExistsE env region bucket w)) \<and>
   asserting (AssertS3BucketVersioningExists env region bucket)
     (\<lambda>w. with_unit (AssertS3BucketVersioningExistsE env region bucket w)) \<and>
   asserting (AssertS3BucketPolicyExists env region bucket)
     (\<lambda>w. with_unit (AssertS3BucketPolicyExistsE env region bucket w)) \<and>
   (\<forall>w. case EmptyS3BucketE env region bucket w of
           None \<Rightarrow> EmptyS3Bucket env region bucket w = None
         | Some e \<Rightarrow> (\<exists>t. EmptyS3Bucket env region bucket w = Some t \<and> asserts_on t (with_unit e))) \<and>
   asserting (\<lambda>w. (NewS3Client env region, w))
     (\<lambda>w. (Returns (NewS3ClientE env region), w)) \<and>
   asserting (\<lambda>w. (NewS3Uploader env region, w))
     (\<lambda>w. (Returns (NewS3UploaderE env region), w))"
  by (intro conjI value_variants error_variants empty_variant)

theorem test_variants_follow_twins_witness:
  "FindS3BucketWithTagE s3_aws ''eu-west-1'' ''team'' ''infra'' (fresh tags_locked) =
     (Returns ([], Some (Sdk (SdkError ''AccessDenied''))),
      \<lparr>cloud = tags_locked, calls = [CallListBuckets, CallGetBucketTagging (Some ''logs'')]\<rparr>) \<and>
   FindS3BucketWithTag s3_aws ''eu-west-1'' ''team'' ''infra'' (fresh tags_locked) =
     (FailsNow (Sdk (SdkError ''AccessDenied'')),
      \<lparr>cloud = tags_locked, calls = [CallListBuckets, CallGetBucketTagging (Some ''logs'')]\<rparr>) \<and>
   FindS3BucketWithTagE s3_aws ''eu-west-1'' ''team'' ''data'' (fresh tagged) =
     (Returns (''logs'', None),
      \<lparr>cloud = tagged, calls = [CallListBuckets, CallGetBucketTagging (Some ''logs'')]\<rparr>) \<and>
   FindS3BucketWithTag s3_aws ''eu-west-1'' ''team'' ''data'' (fresh tagged) =
     (Passes ''logs'',
      \<lparr>cloud = tagged, calls = [CallListBuckets, CallGetBucketTagging (Some ''logs'')]\<rparr>) \<and>
   FindS3BucketWithTagE s3_aws ''eu-west-1'' ''team'' ''infra'' (fresh untagged) =
     (Panics, \<lparr>cloud = untagged, calls = [CallListBuckets, CallGetBucketTagging (Some ''logs'')]\<rparr>) \<and>
   FindS3BucketWithTag s3_aws ''eu-west-1'' ''team'' ''infra'' (fresh untagged) =
     (TestPanics,
      \<lparr>cloud = untagged, calls = [CallListBuckets, CallGetBucketTagging (Some ''logs'')]\<rparr>) \<and>
   EmptyS3Bucket s3_aws ''eu-west-1'' ''logs'' (fresh markers_only) =
     Some (Passes (),
           \<lparr>cloud = markers_only,
            calls = [CallListObjectVersions
                       \<lparr>ListObjectVersionsInput.Bucket = Some ''logs'', KeyMarker = None\<rparr>]\<rparr>)"
proof -
  have finder: "asserts_on (FindS3BucketWithTag s3_aws ''eu-west-1'' k v w)
                (FindS3BucketWithTagE s3_aws ''eu-west-1'' k v w)" for k v w
    using test_variants_follow_twins [of s3_aws "''eu-west-1''" k v "''logs''" "[]" "[]",
        THEN conjunct1]
    by (simp add: asserting_def)
  have emptier: "case EmptyS3BucketE s3_aws ''eu-west-1'' ''logs'' w of
           None \<Rightarrow> EmptyS3Bucket s3_aws ''eu-west-1'' ''logs'' w = None
         | Some e \<Rightarrow> (\<exists>t. EmptyS3Bucket s3_aws ''eu-west-1'' ''logs'' w = Some t \<and>
                          asserts_on t (with_unit e))" for w
    using test_variants_follow_twins [of s3_aws "''eu-west-1''" "[]" "[]" "''logs''" "[]" "[]"]
    by blast
  have "FindS3BucketWithTag s3_aws ''eu-west-1'' ''team'' ''infra'' (fresh tags_locked) =
     (FailsNow (Sdk (SdkError ''AccessDenied'')),
      \<lparr>cloud = tags_locked, calls = [CallListBuckets, CallGetBucketTagging (Some ''logs'')]\<rparr>)"
    using finder [of "''team''" "''infra''" "fresh tags_locked"]
    by (simp add: find_on_tags_locked asserts_on_def prod_eq_iff)
  moreover have "FindS3BucketWithTag s3_aws ''eu-west-1'' ''team'' ''data'' (fresh tagged) =
     (Passes ''logs'',
      \<lparr>cloud = tagged, calls = [CallListBuckets, CallGetBucketTagging (Some ''logs'')]\<rparr>)"
    using finder [of "''team''" "''data''" "fresh tagged"]
    by (simp add: find_on_tagged asserts_on_def prod_eq_iff)
  moreover have "FindS3BucketWithTag s3_aws ''eu-west-1'' ''team'' ''infra'' (fresh untagged) =
     (TestPanics,
      \<lparr>cloud = untagged, calls = [CallListBuckets, CallGetBucketTagging (Some ''logs'')]\<rparr>)"
    using finder [of "''team''" "''infra''" "fresh untagged"]
    by (simp add: find_on_untagged asserts_on_def prod_eq_iff)
  moreover have "EmptyS3Bucket s3_aws ''eu-west-1'' ''logs'' (fresh markers_only) =
     Some (Passes (),
           \<lparr>cloud = markers_only,
            calls = [CallListObjectVersions
                       \<lparr>ListObjectVersionsInput.Bucket = Some ''logs'', KeyMarker = None\<rparr>]\<rparr>)"
    using emptier [of "fresh markers_only"]
    by (auto simp: empty_on_markers_only asserts_on_def with_unit_def prod_eq_iff)
  ultimately show ?thesis
    by (simp add: find_on_tags_locked find_on_tagged find_on_untagged)
qed

subsection \<open>Errors of the SDK\<close>

lemma errors_pass_through:
  assumes "NewAuthenticatedSession env region = Inr c"
  shows
    "(\<forall>out err s'. GetBucketTagging env c (Some bucket) (cloud w) = ((out, Some err), s') \<longrightarrow>
      GetS3BucketTagsE env region bucket w =
        (Returns (None, Some (Sdk err)), after w s' [CallGetBucketTagging (Some bucket)]))"
    "(\<forall>out err s'. GetObject env c (get_object_request bucket key) (cloud w) = ((out, Some err), s') \<longrightarrow>
      GetS3ObjectContentsE env region bucket key w =
        (Returns ([], Some (Sdk err)), after w s' [CallGetObject (get_object_request bucket key)]))"
    "(\<forall>res contents err s'.
      GetObject env c (get_object_request bucket key) (cloud w) = ((Some res, None), s') \<and>
      GetObjectOutput.Body res = (contents, Some err) \<longrightarrow>
      GetS3ObjectContentsE env region bucket key w =
        (Returns ([], Some (Sdk err)), after w s' [CallGetObject (get_object_request bucket key)]))"
    "(\<forall>err s'. PutObject env c (put_object_request bucket key body) (cloud w) = (Some err, s') \<longrightarrow>
      PutS3ObjectContentsE env region bucket key body w =
        (Returns (Some (Sdk err)), after w s' [CallPutObject (put_object_request bucket key body)]))"
    "(\<forall>err s'. CreateBucket env c (create_bucket_request region bucket) (cloud w) = (Some err, s') \<longrightarrow>
      CreateS3BucketE env region bucket w =
        (Returns (Some (Sdk err)), after w s' [CallCreateBucket (create_bucket_request region bucket)]))"
    "(\<forall>err s'. PutBucketPolicy env c (put_policy_request bucket policy) (cloud w) = (Some err, s') \<longrightarrow>
      PutS3BucketPolicyE env region bucket policy w =
        (Returns (Some (Sdk err)), after w s' [CallPutBucketPolicy (put_policy_request bucket policy)]))"
    "(\<forall>err s'. PutBucketVersioning env c (put_versioning_request bucket) (cloud w) = (Some err, s') \<longrightarrow>
      PutS3BucketVersioningE env region bucket w =
        (Returns (Some (Sdk err)), after w s' [CallPutBucketVersioning (put_versioning_request bucket)]))"
    "(\<forall>err s'. DeleteBucket env c (Some bucket) (cloud w) = (Some err, s') \<longrightarrow>
      DeleteS3BucketE env region bucket w =
        (Returns (Some (Sdk err)), after w s' [CallDeleteBucket (Some bucket)]))"
    "(\<forall>out err s'. GetBucketLogging env c (Some bucket) (cloud w) = ((out, Some err), s') \<longrightarrow>
      GetS3BucketLoggingTargetE env region bucket w =
        (Returns ([], Some (Sdk err)), after w s' [CallGetBucketLogging (Some bucket)]))"
    "(\<forall>out err s'. GetBucketLogging env c (Some bucket) (cloud w) = ((out, Some err), s') \<longrightarrow>
      GetS3BucketLoggingTargetPrefixE env region bucket w =
        (Returns ([], Some (Sdk err)), after w s' [CallGetBucketLogging (Some bucket)]))"
    "(\<forall>out err s'. GetBucketVersioning env c (Some bucket) (cloud w) = ((out, Some err), s') \<longrightarrow>
      GetS3BucketVersioningE env region bucket w =
        (Returns ([], Some (Sdk err)), after w s' [CallGetBucketVersioning (Some bucket)]))"
    "(\<forall>out err s'. GetBucketPolicy env c (Some bucket) (cloud w) = ((out, Some err), s') \<longrightarrow>
      GetS3BucketPolicyE env region bucket w =
        (Returns ([], Some (Sdk err)), after w s' [CallGetBucketPolicy (Some bucket)]))"
    "(\<forall>out err s'. GetBucketOwnershipControls env c (Some bucket) (cloud w) = ((out, Some err), s') \<longrightarrow>
      GetS3BucketOwnershipControlsE env region bucket w =
        (Returns (None, Some (Sdk err)), after w s' [CallGetBucketOwnershipControls (Some bucket)]))"
    "(\<forall>err s'. HeadBucket env c (Some bucket) (cloud w) = (Some err, s') \<longrightarrow>
      AssertS3BucketExistsE env region bucket w =
        (Returns (Some (Sdk err)), after w s' [CallHeadBucket (Some bucket)]))"
    "(\<forall>out err s'. GetBucketVersioning env c (Some bucket) (cloud w) = ((out, Some err), s') \<longrightarrow>
      AssertS3BucketVersioningExistsE env region bucket w =
        (Returns (Some (Sdk err)), after w s' [CallGetBucketVersioning (Some bucket)]))"
    "(\<forall>out err s'. GetBucketPolicy env c (Some bucket) (cloud w) = ((out, Some err), s') \<longrightarrow>
      AssertS3BucketPolicyExistsE env region bucket w =
        (Returns (Some (Sdk err)), after w s' [CallGetBucketPolicy (Some bucket)]))"
  using assms
  by (auto simp: single_call_defs NewS3ClientE_def invoke_def after_def Let_def
      split: prod.splits option.splits exec.splits)

lemma empty_errors_pass_through:
  assumes "NewAuthenticatedSession env region = Inr c"
  shows
    "EmptyS3BucketE env region bucket w =
      EmptyS3BucketE_loop env c bucket
        \<lparr>ListObjectVersionsInput.Bucket = Some bucket, KeyMarker = None\<rparr> w"
    "(\<forall>params out err s1.
      ListObjectVersions env c params (cloud w) = ((out, Some err), s1) \<longrightarrow>
      EmptyS3BucketE_loop env c bucket params w =
        Some (Returns (Some (Sdk err)), after w s1 [CallListObjectVersions params]))"
    "(\<forall>params page err s1 s2.
      ListObjectVersions env c params (cloud w) = ((Some page, None), s1) \<and>
      Versions page \<noteq> [] \<and>
      DeleteObjects env c (delete_request bucket page) s1 = (Some err, s2) \<longrightarrow>
      EmptyS3BucketE_loop env c bucket params w =
        Some (Returns (Some (Sdk err)),
              after w s2 [CallListObjectVersions params,
                          CallDeleteObjects (delete_request bucket page)]))"
proof -
  show "EmptyS3BucketE env region bucket w =
      EmptyS3BucketE_loop env c bucket
        \<lparr>ListObjectVersionsInput.Bucket = Some bucket, KeyMarker = None\<rparr> w"
    using assms by (simp add: EmptyS3BucketE_def NewS3ClientE_def)
  show "\<forall>params out err s1.
      ListObjectVersions env c params (cloud w) = ((out, Some err), s1) \<longrightarrow>
      EmptyS3BucketE_loop env c bucket params w =
        Some (Returns (Some (Sdk err)), after w s1 [CallListObjectVersions params])"
    by (subst EmptyS3BucketE_loop.simps)
      (auto simp: EmptyS3BucketE_pass_def invoke_def after_def split: option.splits)
  show "\<forall>params page err s1 s2.
      ListObjectVersions env c params (cloud w) = ((Some page, None), s1) \<and>
      Versions page \<noteq> [] \<and>
      DeleteObjects env c (delete_request bucket page) s1 = (Some err, s2) \<longrightarrow>
      EmptyS3BucketE_loop env c bucket params w =
        Some (Returns (Some (Sdk err)),
              after w s2 [CallListObjectVersions params,
                          CallDeleteObjects (delete_request bucket page)])"
    by (subst EmptyS3BucketE_loop.simps)
      (auto simp: EmptyS3BucketE_pass_def invoke_def after_def delete_request_def Let_def)
qed

lemma find_errors:
  assumes "NewAuthenticatedSession env region = Inr c"
  shows
    "(\<forall>out err s'. ListBuckets env c (cloud w) = ((out, Some err), s') \<longrightarrow>
      FindS3BucketWithTagE env region key value w =
        (Returns ([], Some (Sdk err)), after w s' [CallListBuckets]))"
    "(\<forall>resp s'. ListBuckets env c (cloud w) = ((Some resp, None), s') \<longrightarrow>
      FindS3BucketWithTagE env region key value w =
        buckets_loop env c (Buckets resp) key value (after w s' [CallListBuckets]))"
    "(\<forall>b rest out err s'.
      GetBucketTagging env c (Name b) (cloud w) = ((out, Some err), s') \<and>
      Contains (Error err) ''NoSuchBucket'' \<longrightarrow>
      buckets_loop env c (b # rest) key value w =
        buckets_loop env c rest key value (after w s' [CallGetBucketTagging (Name b)]))"
    "(\<forall>b rest out err s'.
      GetBucketTagging env c (Name b) (cloud w) = ((out, Some err), s') \<and>
      \<not> Contains (Error err) ''NoSuchBucket'' \<and>
      \<not> Contains (Error err) ''AuthorizationHeaderMalformed'' \<and>
      \<not> Contains (Error err) ''BucketRegionError'' \<and>
      \<not> Contains (Error err) ''NoSuchTagSet'' \<longrightarrow>
      buckets_loop env c (b # rest) key value w =
        (Returns ([], Some (Sdk err)), after w s' [CallGetBucketTagging (Name b)]))"
  using assms
  by (auto simp: FindS3BucketWithTagE_def bucket_round_def NewS3ClientE_def invoke_def after_def
      split: prod.splits option.splits)

text \<open>
  Claim C6: when the SDK call of a helper returns an error, the helper returns at once
  with that error and the zero value of its result, without issuing the call again; the
  exception is the tagging lookup in \<^verbatim>\<open>FindS3BucketWithTagE\<close>, which skips the bucket on
  an error with \<^verbatim>\<open>NoSuchBucket\<close> and continues past an error with
  \<^verbatim>\<open>AuthorizationHeaderMalformed\<close>, \<^verbatim>\<open>BucketRegionError\<close> or \<^verbatim>\<open>NoSuchTagSet\<close>.

  The lemmas above are the first part and the skip. The code does not continue past the
  three errors: the SDK returns a \<^verbatim>\<open>nil\<close> output with every error, and the round reads
  \<^verbatim>\<open>tagResponse.TagSet\<close> through it. With a bucket without tags listed before the
  bucket that carries the pair, the function panics at the first; the second, which the
  loop over the remaining list would find, is never looked at.
\<close>

theorem FindS3BucketWithTagE_stops_at_tolerated_error:
  "GetBucketTagging s3_aws ''eu-west-1'' (Some ''logs'') untagged_first =
     ((None, Some (SdkError ''NoSuchTagSet: The TagSet does not exist'')), untagged_first) \<and>
   FindS3BucketWithTagE s3_aws ''eu-west-1'' ''team'' ''infra'' (fresh untagged_first) =
     (Panics,
      \<lparr>cloud = untagged_first,
       calls = [CallListBuckets, CallGetBucketTagging (Some ''logs'')]\<rparr>) \<and>
   buckets_loop s3_aws ''eu-west-1'' [\<lparr>Name = Some ''data''\<rparr>] ''team'' ''infra''
       (fresh untagged_first) =
     (Returns (''data'', None),
      \<lparr>cloud = untagged_first, calls = [CallGetBucketTagging (Some ''data'')]\<rparr>)"
  by (simp add: FindS3BucketWithTagE_def bucket_round_def bucket_tags_match_def s3_defs
      untagged_first_def)

end
